theory Spec2Isabelle
  imports Main "HOL-Library.Sublist"
begin

section \<open>Python strings\<close>

text \<open>
  A Python \<open>str\<close> is a sequence of Unicode code points, so it is modelled as a list of
  natural numbers. \<open>u\<close> turns an ASCII literal of the source into that form; the three
  outcome markers of the source are not ASCII and are given by their code points.
\<close>

type_synonym ustr = "nat list"

definition u :: "string \<Rightarrow> ustr" where
  "u s = map of_char s"

definition cross :: ustr where
  "cross = [0x274C]"

definition check :: ustr where
  "check = [0x2705]"

definition bin :: ustr where
  "bin = [0x1F5D1, 0xFE0F]"

definition nl :: ustr where
  "nl = [10]"

text \<open>\<open>s.endswith(suf)\<close>.\<close>

definition endswith :: "ustr \<Rightarrow> ustr \<Rightarrow> bool" where
  "endswith s suf = suffix suf s"

text \<open>\<open>sep.join(xs)\<close>.\<close>

fun join :: "ustr \<Rightarrow> ustr list \<Rightarrow> ustr" where
  "join sep [] = []"
| "join sep [x] = x"
| "join sep (x # y # ys) = x @ sep @ join sep (y # ys)"

text \<open>\<open>s or d\<close> on strings: the empty string is false.\<close>

definition py_or :: "ustr \<Rightarrow> ustr \<Rightarrow> ustr" where
  "py_or s d = (if s = [] then d else s)"

text \<open>
  \<open>str.isspace\<close> on one code point (the white space table of CPython), and
  \<open>s.strip()\<close>, which removes such code points from both ends.
\<close>

definition isspace :: "nat \<Rightarrow> bool" where
  "isspace c = ((0x09 \<le> c \<and> c \<le> 0x0D) \<or> (0x1C \<le> c \<and> c \<le> 0x20) \<or> c = 0x85 \<or> c = 0xA0
     \<or> c = 0x1680 \<or> (0x2000 \<le> c \<and> c \<le> 0x200A) \<or> c = 0x2028 \<or> c = 0x2029
     \<or> c = 0x202F \<or> c = 0x205F \<or> c = 0x3000)"

definition strip :: "ustr \<Rightarrow> ustr" where
  "strip s = rev (dropWhile isspace (rev (dropWhile isspace s)))"

text \<open>\<open>sub in s\<close> on strings: \<open>sub\<close> occurs in \<open>s\<close> as a contiguous piece.\<close>

fun contains :: "ustr \<Rightarrow> ustr \<Rightarrow> bool" where
  "contains [] sub = (sub = [])"
| "contains (c # cs) sub = (prefix sub (c # cs) \<or> contains cs sub)"

text \<open>
  \<open>str(xs)\<close> of a list of strings, as an f-string prints it: the \<open>repr\<close> of each
  element, separated by a comma and a space, in brackets. \<open>repr\<close> of a string is the
  interpreter's and is taken as a parameter.
\<close>

definition str_list :: "(ustr \<Rightarrow> ustr) \<Rightarrow> ustr list \<Rightarrow> ustr" where
  "str_list repr xs = u ''['' @ join (u '', '') (map repr xs) @ u '']''"

section \<open>Paths\<close>

text \<open>
  A \<open>pathlib\<close> path on a POSIX system: the number of leading slashes of its root (0 for
  a relative path, otherwise 1 or 2) and its components.
\<close>

datatype path = Path nat "ustr list"

definition slash :: nat where
  "slash = 47"

text \<open>\<open>s.split(c)\<close> for a single separator character.\<close>

fun split_sep :: "nat \<Rightarrow> ustr \<Rightarrow> ustr list" where
  "split_sep c [] = [[]]"
| "split_sep c (x # xs) =
     (if x = c then [] # split_sep c xs
      else (x # hd (split_sep c xs)) # tl (split_sep c xs))"

text \<open>
  How \<open>pathlib\<close> reads a string: exactly two leading slashes are kept as the root
  \<open>//\<close>, any other number of them is the root \<open>/\<close>; empty components and \<open>.\<close>
  are dropped, \<open>..\<close> is kept.
\<close>

fun root_of :: "ustr \<Rightarrow> nat" where
  "root_of (a # b # c # s) =
     (if a \<noteq> slash then 0 else if b = slash \<and> c \<noteq> slash then 2 else 1)"
| "root_of [a, b] = (if a \<noteq> slash then 0 else if b = slash then 2 else 1)"
| "root_of [a] = (if a \<noteq> slash then 0 else 1)"
| "root_of [] = 0"

definition segments :: "ustr \<Rightarrow> ustr list" where
  "segments s = filter (\<lambda>p. p \<noteq> [] \<and> p \<noteq> u ''.'') (split_sep slash s)"

definition parse_path :: "ustr \<Rightarrow> path" where
  "parse_path s = Path (root_of s) (segments s)"

text \<open>\<open>base / s\<close>: an absolute \<open>s\<close> replaces the base.\<close>

fun joinpath :: "path \<Rightarrow> ustr \<Rightarrow> path" where
  "joinpath (Path r ps) s =
     (if root_of s \<noteq> 0 then parse_path s else Path r (ps @ segments s))"

text \<open>\<open>str(path)\<close>, which the f-strings of the messages print.\<close>

fun str_path :: "path \<Rightarrow> ustr" where
  "str_path (Path r ps) =
     py_or (replicate r slash @ join [slash] ps) (u ''.'')"

text \<open>\<open>DOCS_DIR = Path("./documents")\<close>.\<close>

definition DOCS_DIR :: path where
  "DOCS_DIR = parse_path (u ''./documents'')"

definition ext_docx :: ustr where
  "ext_docx = u ''.docx''"

definition ext_xlsx :: ustr where
  "ext_xlsx = u ''.xlsx''"

definition ext_pptx :: ustr where
  "ext_pptx = u ''.pptx''"

text \<open>\<open>get_path\<close> of server.py.\<close>

definition get_path :: "ustr \<Rightarrow> ustr \<Rightarrow> path" where
  "get_path filename ext =
     joinpath DOCS_DIR (if \<not> endswith filename ext then filename @ ext else filename)"

text \<open>\<open>get_doc_path\<close> of the single-format variant of the server.\<close>

definition get_doc_path :: "ustr \<Rightarrow> path" where
  "get_doc_path filename =
     joinpath DOCS_DIR
       (if \<not> endswith filename (u ''.docx'') then filename @ u ''.docx'' else filename)"

section \<open>The format libraries\<close>

text \<open>
  The three format libraries (\<open>docx\<close>, \<open>openpyxl\<close>, \<open>pptx\<close>) are used by the server
  and are not part of the repository. What they make of a text they are given is a
  parameter of the model: for every text, either the message of the exception the
  library raises for it, or what is read back from a saved file for it.

  \<^item> \<open>docx_text\<close>: a text given to \<open>doc.add_paragraph\<close>, as \<open>p.text\<close> reads it back;
  \<^item> \<open>pptx_text\<close>: a text assigned to a placeholder's \<open>text\<close>, as \<open>shape.text\<close>
    reads it back;
  \<^item> \<open>xlsx_cell\<close>: a string in a row given to \<open>ws.append\<close>, as the cell holds it;
  \<^item> \<open>retitle\<close>: the title a sheet gets by \<open>ws.title = t\<close>, from the titles of the
    workbook, the position of the sheet and \<open>t\<close>;
  \<^item> \<open>new_title\<close>: the title of the sheet that \<open>wb.create_sheet(t)\<close> makes, from the
    titles of the workbook and \<open>t\<close>.
\<close>

datatype content = Text ustr | Formula ustr "ustr option"

record lib =
  docx_text :: "ustr \<Rightarrow> ustr + ustr"
  pptx_text :: "ustr \<Rightarrow> ustr + ustr"
  xlsx_cell :: "ustr \<Rightarrow> ustr + content"
  retitle :: "ustr list \<Rightarrow> nat \<Rightarrow> ustr \<Rightarrow> ustr + ustr"
  new_title :: "ustr list \<Rightarrow> ustr \<Rightarrow> ustr + ustr"

text \<open>
  Modelled from the spec: the specification takes the libraries for correct black
  boxes. For the two libraries that write text into XML this is kept for a text of
  printable ASCII characters only, which is stored and read back as it is; what becomes
  of any other text is the parameter's.
\<close>

definition plain :: "ustr \<Rightarrow> bool" where
  "plain t = list_all (\<lambda>c. 32 \<le> c \<and> c \<le> 126) t"

definition para_text :: "lib \<Rightarrow> ustr \<Rightarrow> ustr + ustr" where
  "para_text L t = (if plain t then Inr t else docx_text L t)"

definition frame_text :: "lib \<Rightarrow> ustr \<Rightarrow> ustr + ustr" where
  "frame_text L t = (if plain t then Inr t else pptx_text L t)"

text \<open>
  A loop of the source whose body can raise: the first exception ends it, and the state
  built so far is dropped with it.
\<close>

fun for_each :: "('s \<Rightarrow> 'a \<Rightarrow> ustr + 's) \<Rightarrow> 's \<Rightarrow> 'a list \<Rightarrow> ustr + 's" where
  "for_each f st [] = Inr st"
| "for_each f st (x # xs) =
     (case f st x of Inl e \<Rightarrow> Inl e | Inr st' \<Rightarrow> for_each f st' xs)"

text \<open>The message of the \<open>AttributeError\<close> for an attribute an object lacks.\<close>

definition no_attr :: "ustr \<Rightarrow> ustr \<Rightarrow> ustr" where
  "no_attr cls a =
     [39] @ cls @ [39] @ u '' object has no attribute '' @ [39] @ a @ [39]"

definition none_attr :: "ustr \<Rightarrow> ustr" where
  "none_attr a = no_attr (u ''NoneType'') a"

subsection \<open>Word documents\<close>

text \<open>
  A Word document is the ordered sequence of its paragraphs, each the text that
  \<open>p.text\<close> gives. \<open>Document()\<close> has none; \<open>doc.add_paragraph(text)\<close> puts one after
  the others, or raises.
\<close>

type_synonym document = "ustr list"

definition new_document :: document where
  "new_document = []"

definition add_paragraph :: "lib \<Rightarrow> document \<Rightarrow> ustr \<Rightarrow> ustr + document" where
  "add_paragraph L doc t =
     (case para_text L t of Inl e \<Rightarrow> Inl e | Inr t' \<Rightarrow> Inr (doc @ [t']))"

definition paragraphs :: "document \<Rightarrow> ustr list" where
  "paragraphs doc = doc"

subsection \<open>Workbooks\<close>

text \<open>
  A cell of a sheet holds no value, or a content: a text (\<open>str\<close> of the value), or a
  formula together with the value the file caches for it, if any. A row is its cells
  from the first column on; a row without cells is an empty row of the sheet. A sheet
  of a workbook is a worksheet with its rows, or a chart sheet, which has none. A sheet
  is named in the workbook by its position.
\<close>

type_synonym cell = "content option"

type_synonym row = "cell list"

datatype sheet = Worksheet "row list" | Chartsheet

record workbook =
  sheets :: "(ustr \<times> sheet) list"
  active_index :: nat

text \<open>\<open>Workbook()\<close>: one empty worksheet, titled \<open>Sheet\<close>, which is the active one.\<close>

definition new_workbook :: workbook where
  "new_workbook = \<lparr>sheets = [(u ''Sheet'', Worksheet [])], active_index = 0\<rparr>"

definition sheetnames :: "workbook \<Rightarrow> ustr list" where
  "sheetnames wb = map fst (sheets wb)"

text \<open>\<open>wb.active\<close>, which is \<open>None\<close> when the index points at no sheet.\<close>

definition active :: "workbook \<Rightarrow> nat option" where
  "active wb = (if active_index wb < length (sheets wb) then Some (active_index wb) else None)"

text \<open>The position of the first sheet with a title, for \<open>wb[title]\<close>.\<close>

fun sheet_index :: "ustr \<Rightarrow> (ustr \<times> sheet) list \<Rightarrow> nat option" where
  "sheet_index t [] = None"
| "sheet_index t (s # ss) =
     (if fst s = t then Some 0 else map_option Suc (sheet_index t ss))"

text \<open>
  \<open>wb.create_sheet(title)\<close>: a new empty worksheet after the others, with the title the
  library gives it; the workbook with it, and its position.
\<close>

definition create_sheet :: "lib \<Rightarrow> workbook \<Rightarrow> ustr \<Rightarrow> ustr + workbook \<times> nat" where
  "create_sheet L wb t =
     (case new_title L (sheetnames wb) t of
        Inl e \<Rightarrow> Inl e
      | Inr t' \<Rightarrow> Inr (wb\<lparr>sheets := sheets wb @ [(t', Worksheet [])]\<rparr>, length (sheets wb)))"

text \<open>\<open>ws.title = t\<close> on the sheet at position \<open>i\<close>.\<close>

definition set_title :: "lib \<Rightarrow> workbook \<Rightarrow> nat \<Rightarrow> ustr \<Rightarrow> ustr + workbook" where
  "set_title L wb i t =
     (case retitle L (sheetnames wb) i t of
        Inl e \<Rightarrow> Inl e
      | Inr t' \<Rightarrow> Inr (wb\<lparr>sheets := (sheets wb)[i := (t', snd (sheets wb ! i))]\<rparr>))"

text \<open>
  \<open>ws.append(row)\<close> on the sheet at position \<open>i\<close>: the cells of the row, one for each
  string, in a new row after the others. A chart sheet has no \<open>append\<close>.
\<close>

definition cells :: "lib \<Rightarrow> ustr list \<Rightarrow> ustr + row" where
  "cells L r =
     for_each (\<lambda>acc t. case xlsx_cell L t of Inl e \<Rightarrow> Inl e | Inr c \<Rightarrow> Inr (acc @ [Some c]))
       [] r"

definition append_row :: "lib \<Rightarrow> nat \<Rightarrow> workbook \<Rightarrow> ustr list \<Rightarrow> ustr + workbook" where
  "append_row L i wb r =
     (case snd (sheets wb ! i) of
        Chartsheet \<Rightarrow> Inl (no_attr (u ''Chartsheet'') (u ''append''))
      | Worksheet rs \<Rightarrow>
          (case cells L r of
             Inl e \<Rightarrow> Inl e
           | Inr cs \<Rightarrow>
               Inr (wb\<lparr>sheets := (sheets wb)[i := (fst (sheets wb ! i), Worksheet (rs @ [cs]))]\<rparr>)))"

definition sheet_rows :: "workbook \<Rightarrow> nat \<Rightarrow> row list" where
  "sheet_rows wb i = (case snd (sheets wb ! i) of Worksheet rs \<Rightarrow> rs | Chartsheet \<Rightarrow> [])"

text \<open>
  \<open>wb.save(path)\<close> writes formulas without a value for them, and writes no row after
  the last row that has a cell: \<open>kept\<close> is what a file keeps of the rows of a sheet.
\<close>

fun forget :: "content \<Rightarrow> content" where
  "forget (Text v) = Text v"
| "forget (Formula f c) = Formula f None"

definition trim :: "row list \<Rightarrow> row list" where
  "trim rs = rev (dropWhile (\<lambda>r. r = []) (rev rs))"

definition kept :: "row list \<Rightarrow> row list" where
  "kept rs = trim (map (map (map_option forget)) rs)"

fun saved_sheet :: "sheet \<Rightarrow> sheet" where
  "saved_sheet (Worksheet rs) = Worksheet (kept rs)"
| "saved_sheet Chartsheet = Chartsheet"

definition saved :: "workbook \<Rightarrow> workbook" where
  "saved wb = wb\<lparr>sheets := map (\<lambda>p. (fst p, saved_sheet (snd p))) (sheets wb)\<rparr>"

text \<open>
  \<open>ws.iter_rows()\<close> yields the rectangle that the sheet's cells span: every row is
  filled with empty cells up to the width of the widest one.
\<close>

definition width :: "row list \<Rightarrow> nat" where
  "width rs = foldr (\<lambda>r w. max (length r) w) rs 0"

definition iter_rows :: "row list \<Rightarrow> row list" where
  "iter_rows rs = map (\<lambda>r. r @ replicate (width rs - length r) None) rs"

subsection \<open>Presentations\<close>

text \<open>
  A shape either has a \<open>text\<close> attribute or not; a slide is its shapes in order. A
  presentation is its slides in order, together with what its second slide layout
  makes of a title and a content: \<open>add_titled\<close> stands for the four statements
  \<open>prs.slide_layouts[1]\<close>, \<open>prs.slides.add_slide(layout)\<close>,
  \<open>slide.shapes.title.text = title\<close> and \<open>slide.placeholders[1].text = content\<close>,
  and gives the new slide, or the message of the exception one of them raises (a
  presentation can lack the layout, and a layout the placeholders).
\<close>

datatype shape = TextShape ustr | OtherShape

type_synonym slide = "shape list"

record presentation =
  slides :: "slide list"
  add_titled :: "ustr \<Rightarrow> ustr \<Rightarrow> ustr + slide"

text \<open>
  Modelled from the spec: the first two layouts of the template of \<open>Presentation()\<close>
  (Title Slide, Title and Content) have a title and one more placeholder, both with
  text. The title is set first.
\<close>

definition two_text_slide :: "lib \<Rightarrow> ustr \<Rightarrow> ustr \<Rightarrow> ustr + slide" where
  "two_text_slide L title body =
     (case frame_text L title of
        Inl e \<Rightarrow> Inl e
      | Inr t' \<Rightarrow>
          (case frame_text L body of
             Inl e \<Rightarrow> Inl e
           | Inr b' \<Rightarrow> Inr [TextShape t', TextShape b']))"

definition new_presentation :: "lib \<Rightarrow> presentation" where
  "new_presentation L = \<lparr>slides = [], add_titled = two_text_slide L\<rparr>"

definition add_slide :: "presentation \<Rightarrow> ustr \<Rightarrow> ustr \<Rightarrow> ustr + presentation" where
  "add_slide prs title body =
     (case add_titled prs title body of
        Inl e \<Rightarrow> Inl e
      | Inr sl \<Rightarrow> Inr (prs\<lparr>slides := slides prs @ [sl]\<rparr>))"

fun shape_texts :: "slide \<Rightarrow> ustr list" where
  "shape_texts [] = []"
| "shape_texts (TextShape t # ss) = t # shape_texts ss"
| "shape_texts (OtherShape # ss) = shape_texts ss"

section \<open>Files and the file system\<close>

text \<open>
  A file is described by what each library makes of it: the entry names \<open>ZipFile\<close>
  lists (\<open>None\<close> when it raises), and for each format library either the content it
  parses or the message \<open>str(e)\<close> of the exception it raises.
\<close>

record disk_file =
  namelist :: "ustr list option"
  docx_of :: "ustr + document"
  xlsx_of :: "ustr + workbook"
  pptx_of :: "ustr + presentation"

text \<open>
  The file system maps paths, as \<open>pathlib\<close> writes them, to files. Asking whether a
  path exists, writing to a path and removing one can fail; the message of the
  exception raised there, if any, is given per path.
\<close>

record fs =
  files :: "path \<Rightarrow> disk_file option"
  stat_error :: "path \<Rightarrow> ustr option"
  write_error :: "path \<Rightarrow> ustr option"
  remove_error :: "path \<Rightarrow> ustr option"

text \<open>
  What \<open>path.exists()\<close> answers when it answers. The call can also raise (\<open>pathlib\<close>
  passes on every \<open>OSError\<close> of the underlying \<open>stat\<close> but the few that mean the path
  is not there), and it stands before the \<open>try\<close> block of each tool: see the section
  on the tools below.
\<close>

definition path_exists :: "fs \<Rightarrow> path \<Rightarrow> bool" where
  "path_exists s p = (files s p \<noteq> None)"

text \<open>
  Modelled from the spec: what a library writes. It is a package that the same library
  reads back as the content saved (of a workbook, what the file keeps of it), that lists
  the part naming its format when read as an archive, and that the other two libraries
  refuse (with a message that stands for theirs).
\<close>

definition foreign :: ustr where
  "foreign = u ''not a package of this format''"

definition docx_file :: "document \<Rightarrow> disk_file" where
  "docx_file doc =
     \<lparr>namelist = Some [u ''[Content_Types].xml'', u ''_rels/.rels'', u ''word/document.xml''],
      docx_of = Inr doc, xlsx_of = Inl foreign, pptx_of = Inl foreign\<rparr>"

definition xlsx_file :: "workbook \<Rightarrow> disk_file" where
  "xlsx_file wb =
     \<lparr>namelist = Some [u ''[Content_Types].xml'', u ''_rels/.rels'', u ''xl/workbook.xml''],
      docx_of = Inl foreign, xlsx_of = Inr (saved wb), pptx_of = Inl foreign\<rparr>"

definition pptx_file :: "presentation \<Rightarrow> disk_file" where
  "pptx_file prs =
     \<lparr>namelist = Some [u ''[Content_Types].xml'', u ''_rels/.rels'', u ''ppt/presentation.xml''],
      docx_of = Inl foreign, xlsx_of = Inl foreign, pptx_of = Inr prs\<rparr>"

text \<open>\<open>x.save(path)\<close> of the three libraries, and \<open>os.remove(path)\<close>.\<close>

definition write_file :: "path \<Rightarrow> disk_file \<Rightarrow> fs \<Rightarrow> ustr + fs" where
  "write_file p f s =
     (case write_error s p of
        Some e \<Rightarrow> Inl e
      | None \<Rightarrow> Inr (s\<lparr>files := (files s)(p \<mapsto> f)\<rparr>))"

definition os_remove :: "path \<Rightarrow> fs \<Rightarrow> ustr + fs" where
  "os_remove p s =
     (case remove_error s p of
        Some e \<Rightarrow> Inl e
      | None \<Rightarrow> Inr (s\<lparr>files := (files s)(p := None)\<rparr>))"

text \<open>\<open>str(n)\<close> of a length, in decimal.\<close>

fun str_nat :: "nat \<Rightarrow> ustr" where
  "str_nat n = (if n < 10 then [48 + n] else str_nat (n div 10) @ [48 + n mod 10])"

section \<open>The operations of server.py\<close>

text \<open>
  Every operation takes the file system and, when it can change it, returns the new one
  beside its result string. The file that \<open>path.exists()\<close> finds is the one the
  library then opens, so the existence check of read, update and delete is the lookup
  of that file. An exception raised inside a \<open>try\<close> block is the \<open>Inl\<close> of the call
  that raises it, and the \<open>except\<close> clause is the case for it. The operations that
  hand text to a library take the library's behaviour \<open>L\<close> as their first argument.
  The definitions of this section give what a tool returns once \<open>path.exists()\<close> has
  answered; the tools themselves, with that call, follow in the last section.
\<close>

subsection \<open>Word\<close>

definition create_docx :: "lib \<Rightarrow> ustr \<Rightarrow> ustr \<Rightarrow> fs \<Rightarrow> ustr \<times> fs" where
  "create_docx L filename content s =
     (let path = get_path filename ext_docx in
      if path_exists s path then (cross @ u '' File already exists: '' @ str_path path, s)
      else
        (case add_paragraph L new_document
                (if strip content \<noteq> [] then content else u ''(new document)'') of
           Inl e \<Rightarrow> (cross @ u '' Failed to create Word doc: '' @ e, s)
         | Inr doc \<Rightarrow>
             (case write_file path (docx_file doc) s of
                Inl e \<Rightarrow> (cross @ u '' Failed to create Word doc: '' @ e, s)
              | Inr s' \<Rightarrow> (check @ u '' Created Word document: '' @ str_path path, s'))))"

definition read_docx :: "(ustr \<Rightarrow> ustr) \<Rightarrow> ustr \<Rightarrow> fs \<Rightarrow> ustr" where
  "read_docx repr filename s =
     (let path = get_path filename ext_docx in
      case files s path of
        None \<Rightarrow> cross @ u '' File not found: '' @ str_path path
      | Some f \<Rightarrow>
          (case docx_of f of
             Inr doc \<Rightarrow> py_or (join nl (paragraphs doc)) (u ''(empty document)'')
           | Inl e \<Rightarrow>
               (case namelist f of
                  Some names \<Rightarrow>
                    if u ''word/document.xml'' \<notin> set names
                    then cross @ u '' Not a Word file. Contains: ''
                           @ str_list repr (take 10 names) @ u ''...''
                    else cross @ u '' Failed to read Word doc: '' @ e
                | None \<Rightarrow> cross @ u '' Failed to read Word doc: '' @ e)))"

definition update_docx :: "lib \<Rightarrow> ustr \<Rightarrow> ustr list \<Rightarrow> fs \<Rightarrow> ustr \<times> fs" where
  "update_docx L filename changes s =
     (let path = get_path filename ext_docx in
      case files s path of
        None \<Rightarrow> (cross @ u '' File not found: '' @ str_path path, s)
      | Some f \<Rightarrow>
          (case docx_of f of
             Inl e \<Rightarrow> (cross @ u '' Failed to update Word doc: '' @ e, s)
           | Inr doc \<Rightarrow>
               (case for_each (add_paragraph L) doc changes of
                  Inl e \<Rightarrow> (cross @ u '' Failed to update Word doc: '' @ e, s)
                | Inr doc' \<Rightarrow>
                    (case write_file path (docx_file doc') s of
                       Inl e \<Rightarrow> (cross @ u '' Failed to update Word doc: '' @ e, s)
                     | Inr s' \<Rightarrow>
                         (check @ u '' Updated Word doc '' @ filename @ u '' with ''
                            @ str_nat (length changes) @ u '' changes.'', s')))))"

definition delete_docx :: "ustr \<Rightarrow> fs \<Rightarrow> ustr \<times> fs" where
  "delete_docx filename s =
     (let path = get_path filename ext_docx in
      case files s path of
        None \<Rightarrow> (cross @ u '' File not found: '' @ str_path path, s)
      | Some f \<Rightarrow>
          (case os_remove path s of
             Inl e \<Rightarrow> (cross @ u '' Failed to delete Word doc: '' @ e, s)
           | Inr s' \<Rightarrow> (bin @ u '' Deleted Word doc: '' @ str_path path, s')))"

subsection \<open>Excel\<close>

text \<open>
  \<open>data\<close> of \<open>create_xlsx\<close> and \<open>sheet_name\<close> of \<open>read_xlsx\<close> default to \<open>None\<close>.
  \<open>if data\<close> and \<open>if sheet_name\<close> are false for \<open>None\<close> and for the empty value.
\<close>

definition create_xlsx ::
  "lib \<Rightarrow> ustr \<Rightarrow> ustr \<Rightarrow> ustr list list option \<Rightarrow> fs \<Rightarrow> ustr \<times> fs" where
  "create_xlsx L filename sheet_name data s =
     (let path = get_path filename ext_xlsx in
      if path_exists s path then (cross @ u '' File already exists: '' @ str_path path, s)
      else
        (case active new_workbook of
           None \<Rightarrow> (cross @ u '' Failed to create Excel: '' @ none_attr (u ''title''), s)
         | Some ws \<Rightarrow>
             (case set_title L new_workbook ws sheet_name of
                Inl e \<Rightarrow> (cross @ u '' Failed to create Excel: '' @ e, s)
              | Inr wb \<Rightarrow>
                  (case (case data of
                           None \<Rightarrow> Inr wb
                         | Some d \<Rightarrow>
                             if d \<noteq> [] then for_each (append_row L ws) wb d else Inr wb) of
                     Inl e \<Rightarrow> (cross @ u '' Failed to create Excel: '' @ e, s)
                   | Inr wb' \<Rightarrow>
                       (case write_file path (xlsx_file wb') s of
                          Inl e \<Rightarrow> (cross @ u '' Failed to create Excel: '' @ e, s)
                        | Inr s' \<Rightarrow>
                            (check @ u '' Created Excel file: '' @ str_path path, s'))))))"

text \<open>
  \<open>wb[sheet_name]\<close> raises a \<open>KeyError\<close> for a title the workbook does not have;
  \<open>str\<close> of a \<open>KeyError\<close> is the \<open>repr\<close> of its message. When \<open>wb.active\<close> is
  \<open>None\<close>, and when the sheet chosen is a chart sheet, \<open>ws.iter_rows()\<close> raises an
  \<open>AttributeError\<close>.
\<close>

definition getitem :: "(ustr \<Rightarrow> ustr) \<Rightarrow> workbook \<Rightarrow> ustr \<Rightarrow> ustr + nat" where
  "getitem repr wb t =
     (case sheet_index t (sheets wb) of
        None \<Rightarrow> Inl (repr (u ''Worksheet '' @ t @ u '' does not exist.''))
      | Some i \<Rightarrow> Inr i)"

definition active_rows :: "workbook \<Rightarrow> ustr + nat" where
  "active_rows wb =
     (case active wb of None \<Rightarrow> Inl (none_attr (u ''iter_rows'')) | Some i \<Rightarrow> Inr i)"

text \<open>
  \<open>wb[sheet_name] if sheet_name else wb.active\<close>, and the position of the sheet when it
  has \<open>iter_rows\<close>.
\<close>

definition choose_sheet :: "(ustr \<Rightarrow> ustr) \<Rightarrow> workbook \<Rightarrow> ustr option \<Rightarrow> ustr + nat" where
  "choose_sheet repr wb sheet_name =
     (case (case sheet_name of
              None \<Rightarrow> active_rows wb
            | Some n \<Rightarrow> if n \<noteq> [] then getitem repr wb n else active_rows wb) of
        Inl e \<Rightarrow> Inl e
      | Inr i \<Rightarrow>
          (case snd (sheets wb ! i) of
             Chartsheet \<Rightarrow> Inl (no_attr (u ''Chartsheet'') (u ''iter_rows''))
           | Worksheet rs \<Rightarrow> Inr i))"

text \<open>
  The text of every cell of every row that \<open>iter_rows\<close> yields. The workbook is loaded
  with \<open>data_only=True\<close>: the value of a cell with a formula is the value the file
  caches for it, and \<open>None\<close> when it caches none.
\<close>

definition cell_text :: "cell \<Rightarrow> ustr" where
  "cell_text c =
     (case c of
        None \<Rightarrow> []
      | Some (Text v) \<Rightarrow> v
      | Some (Formula f None) \<Rightarrow> []
      | Some (Formula f (Some v)) \<Rightarrow> v)"

definition rows_text :: "row list \<Rightarrow> ustr list list" where
  "rows_text rs = map (map cell_text) (iter_rows rs)"

definition read_xlsx :: "(ustr \<Rightarrow> ustr) \<Rightarrow> ustr \<Rightarrow> ustr option \<Rightarrow> fs \<Rightarrow> ustr" where
  "read_xlsx repr filename sheet_name s =
     (let path = get_path filename ext_xlsx in
      case files s path of
        None \<Rightarrow> cross @ u '' File not found: '' @ str_path path
      | Some f \<Rightarrow>
          (case xlsx_of f of
             Inl e \<Rightarrow> cross @ u '' Failed to read Excel: '' @ e
           | Inr wb \<Rightarrow>
               (case choose_sheet repr wb sheet_name of
                  Inl e \<Rightarrow> cross @ u '' Failed to read Excel: '' @ e
                | Inr ws \<Rightarrow>
                    (let rows = rows_text (sheet_rows wb ws) in
                     py_or (join nl (map (join (u '', '')) rows)) (u ''(empty sheet)'')))))"

text \<open>
  \<open>update_xlsx\<close> loads the workbook with its formulas, not their values, so it saves
  the formulas without the values the file had cached.
\<close>

definition update_xlsx :: "lib \<Rightarrow> ustr \<Rightarrow> ustr \<Rightarrow> ustr list list \<Rightarrow> fs \<Rightarrow> ustr \<times> fs" where
  "update_xlsx L filename sheet_name data s =
     (let path = get_path filename ext_xlsx in
      case files s path of
        None \<Rightarrow> (cross @ u '' File not found: '' @ str_path path, s)
      | Some f \<Rightarrow>
          (case xlsx_of f of
             Inl e \<Rightarrow> (cross @ u '' Failed to update Excel: '' @ e, s)
           | Inr wb \<Rightarrow>
               (case (case (if sheet_name \<in> set (sheetnames wb)
                            then sheet_index sheet_name (sheets wb) else None) of
                        Some i \<Rightarrow> Inr (wb, i)
                      | None \<Rightarrow> create_sheet L wb sheet_name) of
                  Inl e \<Rightarrow> (cross @ u '' Failed to update Excel: '' @ e, s)
                | Inr (wb1, ws) \<Rightarrow>
                    (case for_each (append_row L ws) wb1 data of
                       Inl e \<Rightarrow> (cross @ u '' Failed to update Excel: '' @ e, s)
                     | Inr wb2 \<Rightarrow>
                         (case write_file path (xlsx_file wb2) s of
                            Inl e \<Rightarrow> (cross @ u '' Failed to update Excel: '' @ e, s)
                          | Inr s' \<Rightarrow>
                              (check @ u '' Updated Excel file '' @ filename @ u '' with ''
                                 @ str_nat (length data) @ u '' rows.'', s'))))))"

definition delete_xlsx :: "ustr \<Rightarrow> fs \<Rightarrow> ustr \<times> fs" where
  "delete_xlsx filename s =
     (let path = get_path filename ext_xlsx in
      case files s path of
        None \<Rightarrow> (cross @ u '' File not found: '' @ str_path path, s)
      | Some f \<Rightarrow>
          (case os_remove path s of
             Inl e \<Rightarrow> (cross @ u '' Failed to delete Excel: '' @ e, s)
           | Inr s' \<Rightarrow> (bin @ u '' Deleted Excel file: '' @ str_path path, s')))"

subsection \<open>PowerPoint\<close>

text \<open>\<open>d.get(k, dflt)\<close> on a dictionary.\<close>

definition dict_get :: "(ustr \<rightharpoonup> ustr) \<Rightarrow> ustr \<Rightarrow> ustr \<Rightarrow> ustr" where
  "dict_get d k dflt = (case d k of None \<Rightarrow> dflt | Some v \<Rightarrow> v)"

text \<open>
  \<open>create_pptx\<close> takes the first layout of the template of \<open>Presentation()\<close>,
  \<open>update_pptx\<close> the second layout of the presentation it has opened. The parameter
  \<open>slides\<close> of \<open>update_pptx\<close> is called \<open>new_slides\<close> here.
\<close>

definition create_pptx :: "lib \<Rightarrow> ustr \<Rightarrow> ustr \<Rightarrow> ustr \<Rightarrow> fs \<Rightarrow> ustr \<times> fs" where
  "create_pptx L filename title content s =
     (let path = get_path filename ext_pptx in
      if path_exists s path then (cross @ u '' File already exists: '' @ str_path path, s)
      else
        (case two_text_slide L title content of
           Inl e \<Rightarrow> (cross @ u '' Failed to create PowerPoint: '' @ e, s)
         | Inr sl \<Rightarrow>
             (case write_file path (pptx_file ((new_presentation L)\<lparr>slides := [sl]\<rparr>)) s of
                Inl e \<Rightarrow> (cross @ u '' Failed to create PowerPoint: '' @ e, s)
              | Inr s' \<Rightarrow> (check @ u '' Created PowerPoint: '' @ str_path path, s'))))"

text \<open>The text of the slides as \<open>read_pptx\<close> collects it, each with its number.\<close>

definition slide_text :: "nat \<times> slide \<Rightarrow> ustr" where
  "slide_text p = u ''Slide '' @ str_nat (fst p) @ u '':'' @ nl @ join nl (shape_texts (snd p))"

definition slides_text :: "presentation \<Rightarrow> ustr list" where
  "slides_text prs = map slide_text (enumerate 1 (slides prs))"

definition read_pptx :: "ustr \<Rightarrow> fs \<Rightarrow> ustr" where
  "read_pptx filename s =
     (let path = get_path filename ext_pptx in
      case files s path of
        None \<Rightarrow> cross @ u '' File not found: '' @ str_path path
      | Some f \<Rightarrow>
          (case pptx_of f of
             Inl e \<Rightarrow> cross @ u '' Failed to read PowerPoint: '' @ e
           | Inr prs \<Rightarrow>
               py_or (join (nl @ nl) (slides_text prs)) (u ''(empty presentation)'')))"

definition update_pptx :: "ustr \<Rightarrow> (ustr \<rightharpoonup> ustr) list \<Rightarrow> fs \<Rightarrow> ustr \<times> fs" where
  "update_pptx filename new_slides s =
     (let path = get_path filename ext_pptx in
      case files s path of
        None \<Rightarrow> (cross @ u '' File not found: '' @ str_path path, s)
      | Some f \<Rightarrow>
          (case pptx_of f of
             Inl e \<Rightarrow> (cross @ u '' Failed to update PowerPoint: '' @ e, s)
           | Inr prs \<Rightarrow>
               (case for_each (\<lambda>p d. add_slide p (dict_get d (u ''title'') [])
                                                  (dict_get d (u ''content'') []))
                       prs new_slides of
                  Inl e \<Rightarrow> (cross @ u '' Failed to update PowerPoint: '' @ e, s)
                | Inr prs' \<Rightarrow>
                    (case write_file path (pptx_file prs') s of
                       Inl e \<Rightarrow> (cross @ u '' Failed to update PowerPoint: '' @ e, s)
                     | Inr s' \<Rightarrow>
                         (check @ u '' Updated PowerPoint '' @ filename @ u '' with ''
                            @ str_nat (length new_slides) @ u '' new slides.'', s')))))"

definition delete_pptx :: "ustr \<Rightarrow> fs \<Rightarrow> ustr \<times> fs" where
  "delete_pptx filename s =
     (let path = get_path filename ext_pptx in
      case files s path of
        None \<Rightarrow> (cross @ u '' File not found: '' @ str_path path, s)
      | Some f \<Rightarrow>
          (case os_remove path s of
             Inl e \<Rightarrow> (cross @ u '' Failed to delete PowerPoint: '' @ e, s)
           | Inr s' \<Rightarrow> (bin @ u '' Deleted PowerPoint: '' @ str_path path, s')))"

section \<open>The operations of the single-format variant\<close>

text \<open>
  The second source file is a copy of the server for Word documents only. Its tools
  have the names of the Word tools of server.py; here they carry the suffix \<open>_copy\<close>.
  Its \<open>create_docx\<close> opens the document it has just saved, to verify it.
\<close>

definition create_docx_copy :: "lib \<Rightarrow> ustr \<Rightarrow> ustr \<Rightarrow> fs \<Rightarrow> ustr \<times> fs" where
  "create_docx_copy L filename content s =
     (let path = get_doc_path filename in
      if path_exists s path then (cross @ u '' File already exists: '' @ str_path path, s)
      else
        (case (if strip content \<noteq> [] then add_paragraph L new_document content
               else add_paragraph L new_document (u ''(new document)'')) of
           Inl e \<Rightarrow> (cross @ u '' Failed to create document: '' @ e, s)
         | Inr doc \<Rightarrow>
             (case write_file path (docx_file doc) s of
                Inl e \<Rightarrow> (cross @ u '' Failed to create document: '' @ e, s)
              | Inr s' \<Rightarrow>
                  (case docx_of (docx_file doc) of
                     Inl e \<Rightarrow> (cross @ u '' Failed to create document: '' @ e, s')
                   | Inr _ \<Rightarrow> (check @ u '' Created document: '' @ str_path path, s')))))"

definition read_docx_copy :: "(ustr \<Rightarrow> ustr) \<Rightarrow> ustr \<Rightarrow> fs \<Rightarrow> ustr" where
  "read_docx_copy repr filename s =
     (let path = get_doc_path filename in
      case files s path of
        None \<Rightarrow> cross @ u '' File not found: '' @ str_path path
      | Some f \<Rightarrow>
          (case docx_of f of
             Inr doc \<Rightarrow> py_or (join nl (paragraphs doc)) (u ''(empty document)'')
           | Inl e \<Rightarrow>
               (case namelist f of
                  Some names \<Rightarrow>
                    if u ''word/document.xml'' \<notin> set names
                    then cross @ u '' '' @ filename
                           @ u '' is an OOXML container but not a Word document.'' @ nl
                           @ u ''Contains: '' @ str_list repr (take 10 names) @ u ''...''
                    else cross @ u '' Could not read '' @ filename @ u '': '' @ e
                | None \<Rightarrow>
                    cross @ u '' '' @ filename
                      @ u '' is not a valid .docx (possibly corrupted).'')))"

definition update_docx_copy :: "lib \<Rightarrow> ustr \<Rightarrow> ustr list \<Rightarrow> fs \<Rightarrow> ustr \<times> fs" where
  "update_docx_copy L filename changes s =
     (let path = get_doc_path filename in
      case files s path of
        None \<Rightarrow> (cross @ u '' File not found: '' @ str_path path, s)
      | Some f \<Rightarrow>
          (case docx_of f of
             Inl e \<Rightarrow> (cross @ u '' Failed to update '' @ filename @ u '': '' @ e, s)
           | Inr doc \<Rightarrow>
               (case for_each (add_paragraph L) doc changes of
                  Inl e \<Rightarrow> (cross @ u '' Failed to update '' @ filename @ u '': '' @ e, s)
                | Inr doc' \<Rightarrow>
                    (case write_file path (docx_file doc') s of
                       Inl e \<Rightarrow> (cross @ u '' Failed to update '' @ filename @ u '': '' @ e, s)
                     | Inr s' \<Rightarrow>
                         (check @ u '' Updated '' @ filename @ u '' with ''
                            @ str_nat (length changes) @ u '' changes.'', s')))))"

definition delete_docx_copy :: "ustr \<Rightarrow> fs \<Rightarrow> ustr \<times> fs" where
  "delete_docx_copy filename s =
     (let path = get_doc_path filename in
      case files s path of
        None \<Rightarrow> (cross @ u '' File not found: '' @ str_path path, s)
      | Some f \<Rightarrow>
          (case os_remove path s of
             Inl e \<Rightarrow> (cross @ u '' Failed to delete '' @ filename @ u '': '' @ e, s)
           | Inr s' \<Rightarrow> (bin @ u '' Deleted: '' @ str_path path, s')))"

section \<open>The tools\<close>

text \<open>
  A call of a tool either returns a string or raises. Every tool of both source files
  begins with \<open>path.exists()\<close>, before its \<open>try\<close> block: when that call raises, the
  tool raises the same exception and nothing else happens; when it answers, the tool
  returns what the operation of the sections above gives.
\<close>

datatype 'a outcome = Raised ustr | Returned 'a

definition after_exists :: "fs \<Rightarrow> path \<Rightarrow> 'a \<Rightarrow> 'a outcome" where
  "after_exists s p r = (case stat_error s p of Some e \<Rightarrow> Raised e | None \<Rightarrow> Returned r)"

definition tool_create_docx :: "lib \<Rightarrow> ustr \<Rightarrow> ustr \<Rightarrow> fs \<Rightarrow> (ustr \<times> fs) outcome" where
  "tool_create_docx L filename content s =
     after_exists s (get_path filename ext_docx) (create_docx L filename content s)"

definition tool_read_docx :: "(ustr \<Rightarrow> ustr) \<Rightarrow> ustr \<Rightarrow> fs \<Rightarrow> ustr outcome" where
  "tool_read_docx repr filename s =
     after_exists s (get_path filename ext_docx) (read_docx repr filename s)"

definition tool_update_docx :: "lib \<Rightarrow> ustr \<Rightarrow> ustr list \<Rightarrow> fs \<Rightarrow> (ustr \<times> fs) outcome" where
  "tool_update_docx L filename changes s =
     after_exists s (get_path filename ext_docx) (update_docx L filename changes s)"

definition tool_delete_docx :: "ustr \<Rightarrow> fs \<Rightarrow> (ustr \<times> fs) outcome" where
  "tool_delete_docx filename s =
     after_exists s (get_path filename ext_docx) (delete_docx filename s)"

definition tool_create_xlsx ::
  "lib \<Rightarrow> ustr \<Rightarrow> ustr \<Rightarrow> ustr list list option \<Rightarrow> fs \<Rightarrow> (ustr \<times> fs) outcome" where
  "tool_create_xlsx L filename sheet_name data s =
     after_exists s (get_path filename ext_xlsx) (create_xlsx L filename sheet_name data s)"

definition tool_read_xlsx :: "(ustr \<Rightarrow> ustr) \<Rightarrow> ustr \<Rightarrow> ustr option \<Rightarrow> fs \<Rightarrow> ustr outcome" where
  "tool_read_xlsx repr filename sheet_name s =
     after_exists s (get_path filename ext_xlsx) (read_xlsx repr filename sheet_name s)"

definition tool_update_xlsx ::
  "lib \<Rightarrow> ustr \<Rightarrow> ustr \<Rightarrow> ustr list list \<Rightarrow> fs \<Rightarrow> (ustr \<times> fs) outcome" where
  "tool_update_xlsx L filename sheet_name data s =
     after_exists s (get_path filename ext_xlsx) (update_xlsx L filename sheet_name data s)"

definition tool_delete_xlsx :: "ustr \<Rightarrow> fs \<Rightarrow> (ustr \<times> fs) outcome" where
  "tool_delete_xlsx filename s =
     after_exists s (get_path filename ext_xlsx) (delete_xlsx filename s)"

definition tool_create_pptx :: "lib \<Rightarrow> ustr \<Rightarrow> ustr \<Rightarrow> ustr \<Rightarrow> fs \<Rightarrow> (ustr \<times> fs) outcome" where
  "tool_create_pptx L filename title content s =
     after_exists s (get_path filename ext_pptx) (create_pptx L filename title content s)"

definition tool_read_pptx :: "ustr \<Rightarrow> fs \<Rightarrow> ustr outcome" where
  "tool_read_pptx filename s =
     after_exists s (get_path filename ext_pptx) (read_pptx filename s)"

definition tool_update_pptx :: "ustr \<Rightarrow> (ustr \<rightharpoonup> ustr) list \<Rightarrow> fs \<Rightarrow> (ustr \<times> fs) outcome" where
  "tool_update_pptx filename new_slides s =
     after_exists s (get_path filename ext_pptx) (update_pptx filename new_slides s)"

definition tool_delete_pptx :: "ustr \<Rightarrow> fs \<Rightarrow> (ustr \<times> fs) outcome" where
  "tool_delete_pptx filename s =
     after_exists s (get_path filename ext_pptx) (delete_pptx filename s)"

definition tool_create_docx_copy :: "lib \<Rightarrow> ustr \<Rightarrow> ustr \<Rightarrow> fs \<Rightarrow> (ustr \<times> fs) outcome" where
  "tool_create_docx_copy L filename content s =
     after_exists s (get_doc_path filename) (create_docx_copy L filename content s)"

definition tool_read_docx_copy :: "(ustr \<Rightarrow> ustr) \<Rightarrow> ustr \<Rightarrow> fs \<Rightarrow> ustr outcome" where
  "tool_read_docx_copy repr filename s =
     after_exists s (get_doc_path filename) (read_docx_copy repr filename s)"

definition tool_update_docx_copy ::
  "lib \<Rightarrow> ustr \<Rightarrow> ustr list \<Rightarrow> fs \<Rightarrow> (ustr \<times> fs) outcome" where
  "tool_update_docx_copy L filename changes s =
     after_exists s (get_doc_path filename) (update_docx_copy L filename changes s)"

definition tool_delete_docx_copy :: "ustr \<Rightarrow> fs \<Rightarrow> (ustr \<times> fs) outcome" where
  "tool_delete_docx_copy filename s =
     after_exists s (get_doc_path filename) (delete_docx_copy filename s)"


section \<open>Outcomes and properties named by the specification\<close>

text \<open>
  The two lifecycle failures, as the strings every operation of server.py returns for
  them.
\<close>

definition AlreadyExists :: "path \<Rightarrow> ustr" where
  "AlreadyExists p = cross @ u '' File already exists: '' @ str_path p"

definition NotFound :: "path \<Rightarrow> ustr" where
  "NotFound p = cross @ u '' File not found: '' @ str_path p"

text \<open>
  The three classes of a read failure, as the strings the single-format variant returns
  for them (server.py has no string of its own for the first).
\<close>

definition NotAPackage :: "ustr \<Rightarrow> ustr" where
  "NotAPackage filename = cross @ u '' '' @ filename @ u '' is not a valid .docx (possibly corrupted).''"

definition WrongSchema :: "(ustr \<Rightarrow> ustr) \<Rightarrow> ustr \<Rightarrow> ustr list \<Rightarrow> ustr" where
  "WrongSchema repr filename sample =
     cross @ u '' '' @ filename @ u '' is an OOXML container but not a Word document.'' @ nl
       @ u ''Contains: '' @ str_list repr sample @ u ''...''"

definition OtherReadError :: "ustr \<Rightarrow> ustr \<Rightarrow> ustr" where
  "OtherReadError filename e = cross @ u '' Could not read '' @ filename @ u '': '' @ e"

text \<open>A result that begins with one of the three outcome markers.\<close>

definition marked :: "ustr \<Rightarrow> bool" where
  "marked r = (prefix check r \<or> prefix cross r \<or> prefix bin r)"

text \<open>
  Where a path leads. The process runs in a working directory \<open>cwd\<close>, given by its
  components from the root; a relative path is taken from there. \<open>collapse\<close> removes
  every \<open>..\<close> together with the component before it (at the root, \<open>..\<close> stays at the
  root). A path lies within a base directory when the place it leads to is the base or
  below it.
\<close>

definition dotdot :: ustr where
  "dotdot = u ''..''"

fun collapse :: "ustr list \<Rightarrow> ustr list \<Rightarrow> ustr list" where
  "collapse acc [] = rev acc"
| "collapse acc (c # cs) =
     (if c = dotdot then (case acc of [] \<Rightarrow> collapse [] cs | a # as \<Rightarrow> collapse as cs)
      else collapse (c # acc) cs)"

fun absolute :: "ustr list \<Rightarrow> path \<Rightarrow> ustr list" where
  "absolute cwd (Path r ps) = (if r = 0 then cwd @ ps else ps)"

definition lies_within :: "ustr list \<Rightarrow> path \<Rightarrow> path \<Rightarrow> bool" where
  "lies_within cwd base p =
     prefix (collapse [] (absolute cwd base)) (collapse [] (absolute cwd p))"

section \<open>Concrete inputs\<close>

text \<open>
  Modelled from the spec: the libraries as the specification takes them, black boxes
  that keep what they are given. It is the behaviour used for the concrete inputs below,
  which are words of letters and digits: a text is stored as it is; a string becomes a
  text cell, or a formula without a value when it begins with \<open>=\<close> and has more
  characters; a sheet keeps the title it is given, which must not be empty; a sheet
  created with an empty title is called \<open>Sheet\<close>.
\<close>

definition black_box :: lib where
  "black_box =
     \<lparr>docx_text = Inr, pptx_text = Inr,
      xlsx_cell = (\<lambda>t. Inr (if 1 < length t \<and> hd t = 61 then Formula t None else Text t)),
      retitle = (\<lambda>names i t.
        if t = [] then Inl (u ''Title must have at least one character'') else Inr t),
      new_title = (\<lambda>names t. Inr (if t = [] then u ''Sheet'' else t))\<rparr>"

text \<open>
  An empty file system on which every check, write and removal succeeds, a \<open>repr\<close>
  that puts a string in single quotes (as the interpreter does for a string of plain
  characters), and the file system after one document of each format has been created
  under the name \<open>memo\<close>.
\<close>

definition empty_fs :: fs where
  "empty_fs =
     \<lparr>files = Map.empty, stat_error = (\<lambda>p. None), write_error = (\<lambda>p. None),
      remove_error = (\<lambda>p. None)\<rparr>"

definition quote_repr :: "ustr \<Rightarrow> ustr" where
  "quote_repr x = [39] @ x @ [39]"

definition report :: ustr where
  "report = u ''report''"

definition memo :: ustr where
  "memo = u ''memo''"

definition office_fs :: fs where
  "office_fs =
     snd (create_pptx black_box memo (u ''Title'') (u ''Body'')
       (snd (create_xlsx black_box memo (u ''Sheet1'') (Some [[u ''a'', u ''b'']])
         (snd (create_docx black_box memo (u ''Hello'') empty_fs)))))"

text \<open>The workbook and the presentation that \<open>office_fs\<close> holds.\<close>

definition memo_book :: workbook where
  "memo_book =
     \<lparr>sheets = [(u ''Sheet1'', Worksheet [[Some (Text (u ''a'')), Some (Text (u ''b''))]])],
      active_index = 0\<rparr>"

definition memo_deck :: presentation where
  "memo_deck =
     \<lparr>slides = [[TextShape (u ''Title''), TextShape (u ''Body'')]],
      add_titled = two_text_slide black_box\<rparr>"

text \<open>
  The file system that holds, under the name \<open>memo\<close>, what each library saves before
  anything is added: a document without paragraphs, a workbook with its one empty sheet,
  a presentation without slides.
\<close>

definition blank_fs :: fs where
  "blank_fs =
     \<lparr>files = [get_path memo ext_docx \<mapsto> docx_file new_document,
               get_path memo ext_xlsx \<mapsto> xlsx_file new_workbook,
               get_path memo ext_pptx \<mapsto> pptx_file (new_presentation black_box)],
      stat_error = (\<lambda>p. None), write_error = (\<lambda>p. None),
      remove_error = (\<lambda>p. None)\<rparr>"

text \<open>A content of a space and a tab.\<close>

definition blanks :: ustr where
  "blanks = [32, 9]"

text \<open>
  The rows of the sheet with a given title, none when the workbook has no such sheet or
  the sheet is a chart sheet.
\<close>

definition named_rows :: "workbook \<Rightarrow> ustr \<Rightarrow> row list" where
  "named_rows wb t =
     (case sheet_index t (sheets wb) of None \<Rightarrow> [] | Some i \<Rightarrow> sheet_rows wb i)"

text \<open>
  The rows of the sheet with a given title in the workbook stored at a path, when a
  workbook is stored there.
\<close>

definition stored_rows :: "fs \<Rightarrow> path \<Rightarrow> ustr \<Rightarrow> row list option" where
  "stored_rows s p t =
     (case files s p of
        None \<Rightarrow> None
      | Some f \<Rightarrow> (case xlsx_of f of Inl e \<Rightarrow> None | Inr wb \<Rightarrow> Some (named_rows wb t)))"

text \<open>
  A file system with one workbook, \<open>book\<close>, whose only sheet \<open>Sheet1\<close> has the one row
  \<open>x\<close>; and a slide given as \<open>update_pptx\<close> takes it.
\<close>

definition book :: ustr where
  "book = u ''book''"

definition book_fs :: fs where
  "book_fs =
     \<lparr>files = [get_path book ext_xlsx \<mapsto>
                 xlsx_file \<lparr>sheets = [(u ''Sheet1'', Worksheet [[Some (Text (u ''x''))]])],
                            active_index = 0\<rparr>],
      stat_error = (\<lambda>p. None), write_error = (\<lambda>p. None),
      remove_error = (\<lambda>p. None)\<rparr>"

definition next_slide :: "ustr \<rightharpoonup> ustr" where
  "next_slide = [u ''title'' \<mapsto> u ''Next'', u ''content'' \<mapsto> u ''More'']"

text \<open>A content of one tab.\<close>

definition tab :: ustr where
  "tab = [9]"

text \<open>
  A plain text file under the name \<open>draft.docx\<close>: it is no archive, and no library
  parses it (each is given a \<open>pathlib\<close> path and opens it as an archive, so the
  message is that of \<open>zipfile\<close>). And three files with the wrong suffix: a workbook
  named \<open>report.docx\<close>, and a Word document named \<open>report.xlsx\<close> and
  \<open>report.pptx\<close>.
\<close>

definition draft :: ustr where
  "draft = u ''draft''"

definition not_a_zip :: ustr where
  "not_a_zip = u ''File is not a zip file''"

definition plain_text :: disk_file where
  "plain_text =
     \<lparr>namelist = None, docx_of = Inl not_a_zip, xlsx_of = Inl not_a_zip,
      pptx_of = Inl not_a_zip\<rparr>"

definition draft_fs :: fs where
  "draft_fs =
     \<lparr>files = [get_path draft ext_docx \<mapsto> plain_text],
      stat_error = (\<lambda>p. None), write_error = (\<lambda>p. None),
      remove_error = (\<lambda>p. None)\<rparr>"

definition misnamed_fs :: fs where
  "misnamed_fs =
     \<lparr>files = [get_path report ext_docx \<mapsto> xlsx_file new_workbook,
               get_path report ext_xlsx \<mapsto> docx_file [u ''Hello''],
               get_path report ext_pptx \<mapsto> docx_file [u ''Hello'']],
      stat_error = (\<lambda>p. None), write_error = (\<lambda>p. None),
      remove_error = (\<lambda>p. None)\<rparr>"

text \<open>
  A file system that holds no file and allows 255 characters for a name, as the usual
  ones do: asking for a path with a longer component fails with the error
  \<open>ENAMETOOLONG\<close>, which \<open>path.exists()\<close> passes on. And a name of 300 letters
  \<open>a\<close>.
\<close>

fun components :: "path \<Rightarrow> ustr list" where
  "components (Path r ps) = ps"

definition name_too_long :: "path \<Rightarrow> ustr" where
  "name_too_long p = u ''[Errno 36] File name too long: '' @ [39] @ str_path p @ [39]"

definition name_limit_fs :: fs where
  "name_limit_fs =
     \<lparr>files = Map.empty,
      stat_error = (\<lambda>p. if list_ex (\<lambda>c. 255 < length c) (components p)
                          then Some (name_too_long p) else None),
      write_error = (\<lambda>p. None), remove_error = (\<lambda>p. None)\<rparr>"

definition long_name :: ustr where
  "long_name = replicate 300 97"


section \<open>Facts about strings, paths and the concrete inputs\<close>

text \<open>
  The equation of \<open>str_nat\<close> rewrites its own right-hand side; it is used only where the
  argument is known.
\<close>

declare str_nat.simps [simp del]

lemma str_nat_digit: "n < 10 \<Longrightarrow> str_nat n = [48 + n]"
  by (simp add: str_nat.simps)

lemma u_nonempty [simp]: "(u s = []) = (s = [])"
  by (simp add: u_def)

lemma u_inj [simp]: "(u a = u b) = (a = b)"
proof -
  have "inj (of_char :: char \<Rightarrow> nat)"
    by (rule injI) simp
  then show ?thesis
    unfolding u_def by (rule inj_map_eq_map)
qed

lemma endswith_append [simp]: "endswith (n @ e) e"
  by (simp add: endswith_def suffix_def)

lemma get_path_append: "\<not> endswith n e \<Longrightarrow> get_path (n @ e) e = get_path n e"
  by (simp add: get_path_def)

lemma get_doc_path_eq: "get_doc_path name = get_path name ext_docx"
  by (simp add: get_doc_path_def get_path_def ext_docx_def)

lemma marker_distinct [simp]:
  "\<not> prefix check (cross @ x)" "\<not> prefix bin (cross @ x)" "\<not> prefix cross (check @ x)"
  "\<not> prefix cross (bin @ x)" "\<not> prefix check (bin @ x)" "\<not> prefix bin (check @ x)"
  by (simp_all add: check_def cross_def bin_def)

lemma DOCS_DIR_eq: "DOCS_DIR = Path 0 [u ''documents'']"
  by (simp add: DOCS_DIR_def parse_path_def segments_def u_def slash_def)

lemma memo_paths:
  "get_path memo ext_docx = Path 0 [u ''documents'', u ''memo.docx'']"
  "get_path memo ext_xlsx = Path 0 [u ''documents'', u ''memo.xlsx'']"
  "get_path memo ext_pptx = Path 0 [u ''documents'', u ''memo.pptx'']"
  by (simp_all add: memo_def get_path_def endswith_def ext_docx_def ext_xlsx_def ext_pptx_def
        suffix_to_prefix DOCS_DIR_def parse_path_def segments_def slash_def u_def)

lemma strip_hello: "strip (u ''Hello'') = u ''Hello''"
  by (simp add: strip_def isspace_def u_def)

lemma plain_words [simp]:
  "plain (u ''Hello'')" "plain (u ''Title'')" "plain (u ''Body'')" "plain (u ''Line 2'')"
  "plain (u ''Line 3'')" "plain (u ''Next'')" "plain (u ''More'')" "plain (u ''(new document)'')"
  "plain []"
  by (simp_all add: plain_def u_def)

lemma black_box_cells [simp]:
  "xlsx_cell black_box (u ''a'') = Inr (Text (u ''a''))"
  "xlsx_cell black_box (u ''b'') = Inr (Text (u ''b''))"
  "xlsx_cell black_box (u ''c'') = Inr (Text (u ''c''))"
  "xlsx_cell black_box (u ''d'') = Inr (Text (u ''d''))"
  "xlsx_cell black_box (u ''Hello'') = Inr (Text (u ''Hello''))"
  by (simp_all add: black_box_def u_def)

lemma black_box_titles [simp]:
  "retitle black_box names i t
     = (if t = [] then Inl (u ''Title must have at least one character'') else Inr t)"
  "new_title black_box names t = Inr (if t = [] then u ''Sheet'' else t)"
  by (simp_all add: black_box_def)

lemma office_files:
  "files office_fs = [Path 0 [u ''documents'', u ''memo.docx''] \<mapsto> docx_file [u ''Hello''],
      Path 0 [u ''documents'', u ''memo.xlsx''] \<mapsto> xlsx_file memo_book,
      Path 0 [u ''documents'', u ''memo.pptx''] \<mapsto> pptx_file memo_deck]"
  "write_error office_fs = (\<lambda>p. None)" "remove_error office_fs = (\<lambda>p. None)"
  by (simp_all add: office_fs_def create_docx_def create_xlsx_def create_pptx_def memo_paths
      path_exists_def empty_fs_def write_file_def strip_hello Let_def
      new_document_def add_paragraph_def para_text_def new_workbook_def active_def
      set_title_def append_row_def cells_def sheetnames_def
      new_presentation_def two_text_slide_def frame_text_def memo_book_def memo_deck_def)

lemma office_exists:
  "path_exists office_fs (get_path memo ext_docx)"
  "path_exists office_fs (get_path memo ext_xlsx)"
  "path_exists office_fs (get_path memo ext_pptx)"
  by (simp_all add: path_exists_def office_files memo_paths)

lemma office_deleted:
  "prefix bin (fst (delete_docx memo office_fs))"
  "prefix bin (fst (delete_xlsx memo office_fs))"
  "prefix bin (fst (delete_pptx memo office_fs))"
  by (simp_all add: delete_docx_def delete_xlsx_def delete_pptx_def os_remove_def office_files
        memo_paths)

lemma black_box_text [simp]:
  "para_text black_box t = Inr t" "frame_text black_box t = Inr t"
  by (simp_all add: para_text_def frame_text_def black_box_def)

lemma create_empty_fs:
  "prefix check (fst (create_docx black_box n c empty_fs))"
  "sn \<noteq> [] \<Longrightarrow> prefix check (fst (create_xlsx black_box n sn None empty_fs))"
  "sn \<noteq> [] \<Longrightarrow>
     prefix check (fst (create_xlsx black_box n sn (Some [[u ''Hello'']]) empty_fs))"
  "prefix check (fst (create_pptx black_box n t c empty_fs))"
  "prefix check (fst (create_docx_copy black_box n c empty_fs))"
  by (simp_all add: create_docx_def create_xlsx_def create_pptx_def create_docx_copy_def Let_def
      path_exists_def empty_fs_def write_file_def new_workbook_def active_def docx_file_def
      add_paragraph_def two_text_slide_def set_title_def append_row_def cells_def)

lemma report_plain:
  "\<not> endswith report ext_docx" "\<not> endswith report ext_xlsx" "\<not> endswith report ext_pptx"
  by (simp_all add: report_def endswith_def ext_docx_def ext_xlsx_def ext_pptx_def u_def
      suffix_to_prefix)

lemma empty_missing: "\<not> path_exists empty_fs p"
  by (simp add: path_exists_def empty_fs_def)

subsection \<open>Splitting and collapsing\<close>

lemma collapse_plain: "dotdot \<notin> set cs \<Longrightarrow> collapse acc cs = rev acc @ cs"
  by (induction cs arbitrary: acc) auto

lemma collapse_append: "collapse acc (xs @ ys) = collapse (rev (collapse acc xs)) ys"
  by (induction xs arbitrary: acc) (auto split: list.splits)

lemma split_sep_nonempty [simp]: "split_sep c xs \<noteq> []"
  by (induction xs) auto

lemma split_sep_plain: "c \<notin> set ys \<Longrightarrow> split_sep c ys = [ys]"
  by (induction ys) auto

lemma split_sep_append:
  "c \<notin> set ys \<Longrightarrow>
   split_sep c (xs @ ys) = butlast (split_sep c xs) @ [last (split_sep c xs) @ ys]"
proof (induction xs)
  case Nil
  then show ?case by (simp add: split_sep_plain)
next
  case (Cons x xs)
  then show ?case
    by (cases "split_sep c xs") (auto simp: butlast_append)
qed

lemma root_of_zero: "root_of s = 0 \<longleftrightarrow> (s = [] \<or> hd s \<noteq> slash)"
  by (induction s rule: root_of.induct) auto

lemma segments_suffixed:
  assumes "slash \<notin> set e" "length e > 2" "dotdot \<notin> set (split_sep slash n)"
  shows "dotdot \<notin> set (segments (n @ e))"
proof -
  have "set (segments (n @ e))
        \<subseteq> set (butlast (split_sep slash n)) \<union> {last (split_sep slash n) @ e}"
    using assms(1) by (auto simp: segments_def split_sep_append)
  moreover have "dotdot \<notin> set (butlast (split_sep slash n))"
    using assms(3) by (meson in_set_butlastD)
  moreover have "dotdot \<noteq> last (split_sep slash n) @ e"
  proof
    assume "dotdot = last (split_sep slash n) @ e"
    then have "length dotdot = length (last (split_sep slash n) @ e)" by simp
    with assms(2) show False by (simp add: dotdot_def u_def)
  qed
  ultimately show ?thesis by auto
qed

lemma within_relative:
  assumes "root_of x = 0" "dotdot \<notin> set (segments x)"
  shows "lies_within cwd DOCS_DIR (joinpath DOCS_DIR x)"
proof -
  have "collapse [] (cwd @ [u ''documents''] @ segments x)
        = collapse [] (cwd @ [u ''documents'']) @ segments x"
    using assms(2) collapse_append [of "[]" "cwd @ [u ''documents'']" "segments x"]
    by (simp add: collapse_plain)
  then show ?thesis
    using assms(1) by (simp add: lies_within_def DOCS_DIR_eq)
qed

lemma within_get_path:
  assumes "root_of name = 0" "dotdot \<notin> set (split_sep slash name)"
    and e: "slash \<notin> set e" "length e > 2" "hd e \<noteq> slash"
  shows "lies_within cwd DOCS_DIR (get_path name e)"
proof (cases "endswith name e")
  case True
  have "dotdot \<notin> set (segments name)"
    using assms(2) by (auto simp: segments_def)
  with True assms(1) show ?thesis
    by (simp add: get_path_def within_relative)
next
  case False
  have r: "root_of (name @ e) = 0"
    using assms(1) e by (cases name) (auto simp: root_of_zero)
  have "dotdot \<notin> set (segments (name @ e))"
    using e assms(2) by (rule_tac segments_suffixed) auto
  with False r show ?thesis
    by (simp add: get_path_def within_relative)
qed

lemma ext_facts:
  "slash \<notin> set ext_docx" "length ext_docx > 2" "hd ext_docx \<noteq> slash"
  "slash \<notin> set ext_xlsx" "length ext_xlsx > 2" "hd ext_xlsx \<noteq> slash"
  "slash \<notin> set ext_pptx" "length ext_pptx > 2" "hd ext_pptx \<noteq> slash"
  by (simp_all add: ext_docx_def ext_xlsx_def ext_pptx_def u_def slash_def)

subsection \<open>The existence guard of create\<close>

lemma create_docx_existing:
  "path_exists s (get_path n ext_docx) \<Longrightarrow>
   create_docx L n c s = (AlreadyExists (get_path n ext_docx), s)"
  by (simp add: create_docx_def AlreadyExists_def)

lemma create_xlsx_existing:
  "path_exists s (get_path n ext_xlsx) \<Longrightarrow>
   create_xlsx L n sn d s = (AlreadyExists (get_path n ext_xlsx), s)"
  by (simp add: create_xlsx_def AlreadyExists_def)

lemma create_pptx_existing:
  "path_exists s (get_path n ext_pptx) \<Longrightarrow>
   create_pptx L n t c s = (AlreadyExists (get_path n ext_pptx), s)"
  by (simp add: create_pptx_def AlreadyExists_def)

lemma create_docx_copy_existing:
  "path_exists s (get_path n ext_docx) \<Longrightarrow>
   create_docx_copy L n c s = (AlreadyExists (get_path n ext_docx), s)"
  by (simp add: create_docx_copy_def AlreadyExists_def get_doc_path_eq)

lemma create_docx_success_exists:
  "prefix check (fst (create_docx L n c s)) \<Longrightarrow>
   path_exists (snd (create_docx L n c s)) (get_path n ext_docx)"
  by (auto simp: create_docx_def Let_def write_file_def path_exists_def
      split: if_splits option.splits sum.splits)

lemma create_xlsx_success_exists:
  "prefix check (fst (create_xlsx L n sn d s)) \<Longrightarrow>
   path_exists (snd (create_xlsx L n sn d s)) (get_path n ext_xlsx)"
  by (auto simp: create_xlsx_def Let_def write_file_def path_exists_def
      split: if_splits option.splits sum.splits)

lemma create_pptx_success_exists:
  "prefix check (fst (create_pptx L n t c s)) \<Longrightarrow>
   path_exists (snd (create_pptx L n t c s)) (get_path n ext_pptx)"
  by (auto simp: create_pptx_def Let_def write_file_def path_exists_def
      split: if_splits option.splits sum.splits)

lemma create_docx_copy_success_exists:
  "prefix check (fst (create_docx_copy L n c s)) \<Longrightarrow>
   path_exists (snd (create_docx_copy L n c s)) (get_path n ext_docx)"
  by (auto simp: create_docx_copy_def Let_def write_file_def path_exists_def get_doc_path_eq
      split: if_splits option.splits sum.splits)

subsection \<open>Results that are never empty\<close>

lemma cross_nonempty [simp]: "cross @ x \<noteq> []"
  by (simp add: cross_def)

lemma py_or_nonempty: "d \<noteq> [] \<Longrightarrow> py_or x d \<noteq> []"
  by (simp add: py_or_def)

lemma py_or_empty [simp]: "py_or [] d = d"
  by (simp add: py_or_def)

lemma blank_files:
  "files blank_fs (get_path memo ext_docx) = Some (docx_file new_document)"
  "files blank_fs (get_path memo ext_xlsx) = Some (xlsx_file new_workbook)"
  "files blank_fs (get_path memo ext_pptx) = Some (pptx_file (new_presentation black_box))"
  by (simp_all add: blank_fs_def memo_paths)

lemma saved_views:
  "docx_of (docx_file d) = Inr d" "xlsx_of (xlsx_file w) = Inr (saved w)"
  "pptx_of (pptx_file p) = Inr p"
  by (simp_all add: docx_file_def xlsx_file_def pptx_file_def)

lemma saved_new_workbook [simp]: "saved new_workbook = new_workbook"
  by (simp add: saved_def new_workbook_def kept_def trim_def)

lemma blank_render:
  "join nl (paragraphs new_document) = []"
  "choose_sheet quote_repr new_workbook None = Inr 0"
  "join nl (map (join (u '', '')) (rows_text (sheet_rows new_workbook 0))) = []"
  "join (nl @ nl) (slides_text (new_presentation black_box)) = []"
  by (simp_all add: paragraphs_def new_document_def choose_sheet_def active_rows_def active_def
      new_workbook_def rows_text_def sheet_rows_def iter_rows_def slides_text_def
      new_presentation_def)

lemma strip_blank:
  assumes "list_all isspace c"
  shows "strip c = []"
proof -
  have d: "dropWhile isspace c = []"
    using assms by (simp add: list_all_iff)
  show ?thesis
    unfolding strip_def d by simp
qed


subsection \<open>What update stores\<close>

lemma for_each_add_paragraph:
  "list_all2 (\<lambda>y y'. para_text L y = Inr y') ys ys' \<Longrightarrow>
   for_each (add_paragraph L) doc ys = Inr (doc @ ys')"
proof (induction ys ys' arbitrary: doc rule: list_all2_induct)
  case Nil
  then show ?case by simp
next
  case (Cons y ys y' ys')
  then show ?case by (simp add: add_paragraph_def)
qed

lemma for_each_add_slide:
  "list_all2 (\<lambda>d sl. add_titled prs (f d) (g d) = Inr sl) ds sls \<Longrightarrow>
   add_titled p = add_titled prs \<Longrightarrow>
   for_each (\<lambda>p d. add_slide p (f d) (g d)) p ds = Inr (p\<lparr>slides := slides p @ sls\<rparr>)"
proof (induction ds sls arbitrary: p rule: list_all2_induct)
  case Nil
  then show ?case by simp
next
  case (Cons d ds sl sls)
  have "for_each (\<lambda>p d. add_slide p (f d) (g d)) (p\<lparr>slides := slides p @ [sl]\<rparr>) ds
      = Inr (p\<lparr>slides := slides p @ [sl]\<rparr>\<lparr>slides := slides (p\<lparr>slides := slides p @ [sl]\<rparr>) @ sls\<rparr>)"
    by (rule Cons.IH) (simp add: Cons.prems)
  with Cons.hyps(1) Cons.prems show ?case
    by (simp add: add_slide_def)
qed

lemma cells_from:
  "list_all2 (\<lambda>x c. xlsx_cell L x = Inr c) r cs \<Longrightarrow>
   for_each (\<lambda>acc t. case xlsx_cell L t of Inl e \<Rightarrow> Inl e | Inr c \<Rightarrow> Inr (acc @ [Some c])) acc r
     = Inr (acc @ map Some cs)"
proof (induction r cs arbitrary: acc rule: list_all2_induct)
  case Nil
  then show ?case by simp
next
  case (Cons x r c cs)
  then show ?case by simp
qed

lemma cells_images:
  "list_all2 (\<lambda>x c. xlsx_cell L x = Inr c) r cs \<Longrightarrow> cells L r = Inr (map Some cs)"
  using cells_from [of L r cs "[]"] by (simp add: cells_def)

lemma for_each_append_row:
  "list_all2 (list_all2 (\<lambda>x c. xlsx_cell L x = Inr c)) rows rows' \<Longrightarrow>
   i < length (sheets wb) \<Longrightarrow> sheets wb ! i = (t, Worksheet old) \<Longrightarrow>
   for_each (append_row L i) wb rows
     = Inr (wb\<lparr>sheets := (sheets wb)[i := (t, Worksheet (old @ map (map Some) rows'))]\<rparr>)"
proof (induction rows rows' arbitrary: wb old rule: list_all2_induct)
  case Nil
  have "(sheets wb)[i := (t, Worksheet old)] = sheets wb"
    using Nil.prems by (metis list_update_id)
  then show ?case by simp
next
  case (Cons r rows cs rows')
  let ?wb = "wb\<lparr>sheets := (sheets wb)[i := (t, Worksheet (old @ [map Some cs]))]\<rparr>"
  have step: "append_row L i wb r = Inr ?wb"
    using Cons.prems Cons.hyps(1) by (simp add: append_row_def cells_images)
  have "for_each (append_row L i) ?wb rows
     = Inr (?wb\<lparr>sheets := (sheets ?wb)[i := (t, Worksheet ((old @ [map Some cs])
                                                  @ map (map Some) rows'))]\<rparr>)"
    by (rule Cons.IH) (simp_all add: Cons.prems)
  with step show ?case by simp
qed

lemma sheet_index_Some:
  "sheet_index t ss = Some i \<Longrightarrow> i < length ss \<and> fst (ss ! i) = t"
proof (induction ss arbitrary: i)
  case Nil
  then show ?case by simp
next
  case (Cons a ss)
  then show ?case by (auto split: if_splits)
qed

lemma sheet_index_None: "sheet_index t ss = None \<longleftrightarrow> t \<notin> set (map fst ss)"
  by (induction ss) auto

lemma sheet_index_update:
  "sheet_index t ss = Some i \<Longrightarrow> sheet_index t (ss[i := (t, r)]) = Some i"
proof (induction ss arbitrary: i)
  case Nil
  then show ?case by simp
next
  case (Cons a ss)
  then show ?case by (auto split: if_splits)
qed

lemma sheet_index_new:
  "t \<notin> set (map fst ss) \<Longrightarrow> sheet_index t (ss @ [(t, r)]) = Some (length ss)"
  by (induction ss) auto

lemma sheet_index_saved [simp]:
  "sheet_index t (sheets (saved wb)) = sheet_index t (sheets wb)"
proof -
  have "sheet_index t (map (\<lambda>p. (fst p, saved_sheet (snd p))) ss) = sheet_index t ss" for ss
    by (induction ss) simp_all
  then show ?thesis by (simp add: saved_def)
qed

lemma sheet_rows_saved:
  "i < length (sheets wb) \<Longrightarrow> sheets wb ! i = (t, Worksheet rs) \<Longrightarrow>
   sheets (saved wb) ! i = (t, Worksheet (kept rs))"
  by (simp add: saved_def)

lemma update_docx_appends:
  assumes "files s (get_path n ext_docx) = Some f" "docx_of f = Inr xs"
    "write_error s (get_path n ext_docx) = None"
    "list_all2 (\<lambda>y y'. para_text L y = Inr y') ys ys'"
  shows "fst (update_docx L n ys s)
           = check @ u '' Updated Word doc '' @ n @ u '' with '' @ str_nat (length ys)
               @ u '' changes.''"
    and "map_option docx_of (files (snd (update_docx L n ys s)) (get_path n ext_docx))
           = Some (Inr (xs @ ys'))"
    and "read_docx repr n (snd (update_docx L n ys s))
           = py_or (join nl (xs @ ys')) (u ''(empty document)'')"
  using assms(1,2,3) for_each_add_paragraph [OF assms(4), of xs]
  by (simp_all add: update_docx_def read_docx_def write_file_def docx_file_def paragraphs_def)

lemma update_pptx_appends:
  assumes "files s (get_path n ext_pptx) = Some f" "pptx_of f = Inr prs"
    "write_error s (get_path n ext_pptx) = None"
    "list_all2 (\<lambda>d sl. add_titled prs (dict_get d (u ''title'') [])
                          (dict_get d (u ''content'') []) = Inr sl) ds sls"
  shows "fst (update_pptx n ds s)
           = check @ u '' Updated PowerPoint '' @ n @ u '' with '' @ str_nat (length ds)
               @ u '' new slides.''"
    and "map_option pptx_of (files (snd (update_pptx n ds s)) (get_path n ext_pptx))
           = Some (Inr (prs\<lparr>slides := slides prs @ sls\<rparr>))"
    and "read_pptx n (snd (update_pptx n ds s))
           = py_or (join (nl @ nl) (slides_text (prs\<lparr>slides := slides prs @ sls\<rparr>)))
              (u ''(empty presentation)'')"
  using assms(1,2,3) for_each_add_slide [OF assms(4), of prs]
  by (simp_all add: update_pptx_def read_pptx_def write_file_def pptx_file_def)

lemma update_xlsx_old_sheet:
  assumes "files s (get_path n ext_xlsx) = Some f" "xlsx_of f = Inr wb"
    "write_error s (get_path n ext_xlsx) = None" "sheet_index t (sheets wb) = Some i"
    "snd (sheets wb ! i) = Worksheet old"
    "list_all2 (list_all2 (\<lambda>x c. xlsx_cell L x = Inr c)) rows rows'"
  shows "update_xlsx L n t rows s
     = (check @ u '' Updated Excel file '' @ n @ u '' with '' @ str_nat (length rows)
               @ u '' rows.'',
        s\<lparr>files := (files s)(get_path n ext_xlsx \<mapsto>
              xlsx_file (wb\<lparr>sheets := (sheets wb)[i := (t, Worksheet (old
                                                          @ map (map Some) rows'))]\<rparr>))\<rparr>)"
proof -
  have m: "t \<in> set (sheetnames wb)"
    using assms(4) sheet_index_None [of t "sheets wb"] by (simp add: sheetnames_def)
  have i: "i < length (sheets wb)" "sheets wb ! i = (t, Worksheet old)"
    using sheet_index_Some [OF assms(4)] assms(5) by (simp_all add: prod_eq_iff)
  note fe = for_each_append_row [OF assms(6) i]
  show ?thesis
    using assms(1,2,3,4) m by (simp add: update_xlsx_def write_file_def fe)
qed

lemma update_xlsx_new_sheet:
  assumes "files s (get_path n ext_xlsx) = Some f" "xlsx_of f = Inr wb"
    "write_error s (get_path n ext_xlsx) = None" "t \<notin> set (sheetnames wb)"
    "new_title L (sheetnames wb) t = Inr t'"
    "list_all2 (list_all2 (\<lambda>x c. xlsx_cell L x = Inr c)) rows rows'"
  shows "update_xlsx L n t rows s
     = (check @ u '' Updated Excel file '' @ n @ u '' with '' @ str_nat (length rows)
               @ u '' rows.'',
        s\<lparr>files := (files s)(get_path n ext_xlsx \<mapsto>
              xlsx_file (wb\<lparr>sheets := sheets wb @ [(t', Worksheet (map (map Some) rows'))]\<rparr>))\<rparr>)"
proof -
  let ?wb = "wb\<lparr>sheets := sheets wb @ [(t', Worksheet [])]\<rparr>"
  have "for_each (append_row L (length (sheets wb))) ?wb rows
     = Inr (?wb\<lparr>sheets := (sheets ?wb)[length (sheets wb)
                := (t', Worksheet ([] @ map (map Some) rows'))]\<rparr>)"
    by (rule for_each_append_row [OF assms(6)]) simp_all
  then show ?thesis
    using assms(1,2,3,4,5) by (simp add: update_xlsx_def write_file_def create_sheet_def)
qed

lemma read_xlsx_saved:
  assumes "files s (get_path n ext_xlsx) = Some (xlsx_file wb)"
    "sheet_index t (sheets wb) = Some i" "sheets wb ! i = (t, Worksheet rs)" "t \<noteq> []"
  shows "read_xlsx repr n (Some t) s
     = py_or (join nl (map (join (u '', '')) (rows_text (kept rs)))) (u ''(empty sheet)'')"
proof -
  have i: "i < length (sheets wb)"
    using sheet_index_Some [OF assms(2)] by simp
  note sv = sheet_rows_saved [OF i assms(3)]
  show ?thesis
    using assms(1,2,4) sv
    by (simp add: read_xlsx_def xlsx_file_def choose_sheet_def getitem_def sheet_rows_def)
qed

lemma stored_rows_saved:
  assumes "files s p = Some (xlsx_file wb)"
    "sheet_index t (sheets wb) = Some i" "sheets wb ! i = (t, Worksheet rs)"
  shows "stored_rows s p t = Some (kept rs)"
proof -
  have i: "i < length (sheets wb)"
    using sheet_index_Some [OF assms(2)] by simp
  note sv = sheet_rows_saved [OF i assms(3)]
  show ?thesis
    using assms(1,2) sv
    by (simp add: stored_rows_def xlsx_file_def named_rows_def sheet_rows_def)
qed

lemma office_lookup:
  "files office_fs (get_path memo ext_docx) = Some (docx_file [u ''Hello''])"
  "files office_fs (get_path memo ext_xlsx) = Some (xlsx_file memo_book)"
  "files office_fs (get_path memo ext_pptx) = Some (pptx_file memo_deck)"
  "write_error office_fs p = None"
  by (simp_all add: office_files memo_paths)

lemma book_lookup:
  "files book_fs (get_path book ext_xlsx)
     = Some (xlsx_file \<lparr>sheets = [(u ''Sheet1'', Worksheet [[Some (Text (u ''x''))]])],
                         active_index = 0\<rparr>)"
  "write_error book_fs p = None"
  by (simp_all add: book_fs_def)

lemma kept_nil [simp]: "kept [] = []"
  by (simp add: kept_def trim_def)

lemma kept_last:
  "r \<noteq> [] \<Longrightarrow> kept (rs @ [r]) = map (map (map_option forget)) (rs @ [r])"
  by (simp add: kept_def trim_def)



subsection \<open>Markers\<close>

lemma marked_simps [simp]:
  "marked (check @ x)" "marked (cross @ x)" "marked (bin @ x)"
  by (simp_all add: marked_def)


subsection \<open>Containment, and what create stores\<close>

lemma contains_nil [simp]: "contains s []"
  by (cases s) simp_all

lemma contains_prefix: "prefix x s \<Longrightarrow> contains s x"
  by (cases s) auto

lemma contains_self [simp]: "contains x x"
  by (simp add: contains_prefix)

lemma contains_after: "contains s x \<Longrightarrow> contains (a @ s) x"
  by (induction a) auto

lemma contains_before: "contains s x \<Longrightarrow> contains (s @ b) x"
proof (induction s)
  case Nil
  then show ?case by simp
next
  case (Cons c s)
  from Cons.prems have "prefix x (c # s) \<or> contains s x" by simp
  then show ?case
  proof
    assume "prefix x (c # s)"
    then have "prefix x ((c # s) @ b)" by (rule prefix_prefix)
    then show ?thesis by simp
  next
    assume "contains s x"
    then show ?thesis using Cons.IH by simp
  qed
qed

lemma contains_py_or: "contains (py_or x d) x"
  by (simp add: py_or_def)

lemma create_docx_success:
  "prefix check (fst (create_docx L n x s)) \<Longrightarrow>
   para_text L (if strip x \<noteq> [] then x else u ''(new document)'') = Inr x' \<Longrightarrow>
   snd (create_docx L n x s)
     = s\<lparr>files := (files s)(get_path n ext_docx \<mapsto> docx_file [x'])\<rparr>"
  by (auto simp: create_docx_def Let_def write_file_def add_paragraph_def new_document_def
      split: if_splits option.splits)

lemma create_docx_copy_success:
  "prefix check (fst (create_docx_copy L n x s)) \<Longrightarrow>
   para_text L (if strip x \<noteq> [] then x else u ''(new document)'') = Inr x' \<Longrightarrow>
   snd (create_docx_copy L n x s)
     = s\<lparr>files := (files s)(get_doc_path n \<mapsto> docx_file [x'])\<rparr>"
  by (auto simp: create_docx_copy_def Let_def write_file_def add_paragraph_def new_document_def
      docx_file_def split: if_splits option.splits)

lemma create_pptx_success:
  "prefix check (fst (create_pptx L n t x s)) \<Longrightarrow>
   two_text_slide L t x = Inr sl \<Longrightarrow>
   snd (create_pptx L n t x s)
     = s\<lparr>files := (files s)(get_path n ext_pptx \<mapsto>
            pptx_file \<lparr>slides = [sl], add_titled = two_text_slide L\<rparr>)\<rparr>"
  by (auto simp: create_pptx_def Let_def write_file_def new_presentation_def
      split: if_splits option.splits)

lemma create_xlsx_success:
  "prefix check (fst (create_xlsx L n sh (Some [[x]]) s)) \<Longrightarrow>
   xlsx_cell L x = Inr c \<Longrightarrow>
   \<exists>t. snd (create_xlsx L n sh (Some [[x]]) s)
     = s\<lparr>files := (files s)(get_path n ext_xlsx \<mapsto>
            xlsx_file \<lparr>sheets = [(t, Worksheet [[Some c]])], active_index = 0\<rparr>)\<rparr>"
  by (auto simp: create_xlsx_def Let_def write_file_def new_workbook_def active_def
      set_title_def append_row_def cells_def sheetnames_def
      split: if_splits option.splits sum.splits)

lemma strip_nonempty: "strip x \<noteq> [] \<Longrightarrow> x \<noteq> []"
  by (auto simp: strip_def)


lemma tab_blank: "strip tab = []"
  by (simp add: tab_def strip_def isspace_def)


subsection \<open>What read does with a file that does not parse\<close>

lemma read_docx_copy_tiers:
  assumes "files s (get_doc_path n) = Some f" "docx_of f = Inl e"
  shows "read_docx_copy repr n s =
     (case namelist f of
        None \<Rightarrow> NotAPackage n
      | Some names \<Rightarrow>
          if u ''word/document.xml'' \<notin> set names then WrongSchema repr n (take 10 names)
          else OtherReadError n e)"
  using assms
  by (simp add: read_docx_copy_def NotAPackage_def WrongSchema_def OtherReadError_def
      split: option.splits)

lemma read_docx_tiers:
  assumes "files s (get_path n ext_docx) = Some f" "docx_of f = Inl e"
  shows "read_docx repr n s =
     (case namelist f of
        None \<Rightarrow> cross @ u '' Failed to read Word doc: '' @ e
      | Some names \<Rightarrow>
          if u ''word/document.xml'' \<notin> set names
          then cross @ u '' Not a Word file. Contains: '' @ str_list repr (take 10 names)
                 @ u ''...''
          else cross @ u '' Failed to read Word doc: '' @ e)"
  using assms
  by (simp add: read_docx_def split: option.splits)

lemma read_other_formats_generic:
  "files s (get_path n ext_xlsx) = Some f \<Longrightarrow> xlsx_of f = Inl e \<Longrightarrow>
   read_xlsx repr n sn s = cross @ u '' Failed to read Excel: '' @ e"
  "files s (get_path n ext_pptx) = Some g \<Longrightarrow> pptx_of g = Inl e \<Longrightarrow>
   read_pptx n s = cross @ u '' Failed to read PowerPoint: '' @ e"
  by (simp_all add: read_xlsx_def read_pptx_def)

lemma draft_lookup:
  "files draft_fs (get_path draft ext_docx) = Some plain_text"
  "files draft_fs (get_doc_path draft) = Some plain_text"
  by (simp_all add: draft_fs_def get_doc_path_eq)

lemma draft_path: "str_path (get_path draft ext_docx) = u ''documents/draft.docx''"
  by (simp add: draft_def get_path_def endswith_def ext_docx_def suffix_to_prefix DOCS_DIR_def
      parse_path_def segments_def slash_def u_def py_or_def)


lemma misnamed_lookup:
  "files misnamed_fs (get_path report ext_docx) = Some (xlsx_file new_workbook)"
  "files misnamed_fs (get_path report ext_xlsx) = Some (docx_file [u ''Hello''])"
  "files misnamed_fs (get_path report ext_pptx) = Some (docx_file [u ''Hello''])"
  by (simp_all add: misnamed_fs_def report_def get_path_def endswith_def ext_docx_def
      ext_xlsx_def ext_pptx_def suffix_to_prefix DOCS_DIR_def parse_path_def segments_def
      slash_def u_def)


section \<open>Classification of read failures\<close>

text \<open>
  Claim C1, at the input where server.py departs from it. The file \<open>draft.docx\<close> is no
  archive and does not parse. \<open>read_docx\<close> of server.py returns the generic failure
  with the message of the parse exception, which is not the NotAPackage class; on the
  same file, \<open>read_docx\<close> of the single-format variant returns NotAPackage. (The other
  two classes are the same in both files: see \<open>read_docx_tiers\<close> and
  \<open>read_docx_copy_tiers\<close>.)
\<close>

theorem non_archive_not_classified:
  "read_docx quote_repr draft draft_fs
     = cross @ u '' Failed to read Word doc: File is not a zip file''
 \<and> read_docx quote_repr draft draft_fs \<noteq> NotAPackage draft
 \<and> read_docx_copy quote_repr draft draft_fs = NotAPackage draft"
proof -
  have a: "read_docx quote_repr draft draft_fs
     = cross @ u '' Failed to read Word doc: File is not a zip file''"
    by (simp add: read_docx_tiers [OF draft_lookup(1), of not_a_zip] plain_text_def
        not_a_zip_def u_def)
  have b: "read_docx_copy quote_repr draft draft_fs = NotAPackage draft"
    by (simp add: read_docx_copy_tiers [OF draft_lookup(2), of not_a_zip] plain_text_def)
  have c: "cross @ u '' Failed to read Word doc: File is not a zip file'' \<noteq> NotAPackage draft"
    by (simp add: NotAPackage_def draft_def u_def)
  from a b c show ?thesis by simp
qed


section \<open>The resolved path and the base directory\<close>

text \<open>
  Claim C2, as amended. The resolver has no guard against names that leave the base
  directory. What holds is: for every file name that is relative (it does not start
  with a slash) and has no component \<open>..\<close>, and for each of the three suffixes, the
  path that \<open>get_path\<close> (and \<open>get_doc_path\<close> of the single-format variant) returns lies
  within the documents directory, whatever the working directory is.
\<close>

theorem resolved_path_within_base:
  assumes "root_of name = 0" and "dotdot \<notin> set (split_sep slash name)"
    and "ext = ext_docx \<or> ext = ext_xlsx \<or> ext = ext_pptx"
  shows "lies_within cwd DOCS_DIR (get_path name ext)
       \<and> lies_within cwd DOCS_DIR (get_doc_path name)"
  using assms by (auto simp: get_doc_path_eq intro!: within_get_path ext_facts)

text \<open>The name \<open>a/report\<close>, resolved for a spreadsheet with working directory \<open>/srv\<close>.\<close>

theorem resolved_path_within_base_witness:
  "root_of (u ''a/report'') = 0 \<and> dotdot \<notin> set (split_sep slash (u ''a/report''))
   \<and> lies_within [u ''srv''] DOCS_DIR (get_path (u ''a/report'') ext_xlsx)
   \<and> lies_within [u ''srv''] DOCS_DIR (get_doc_path (u ''a/report''))"
proof -
  have a: "root_of (u ''a/report'') = 0" by (simp add: u_def slash_def)
  have b: "dotdot \<notin> set (split_sep slash (u ''a/report''))"
    by (simp add: u_def slash_def dotdot_def)
  from resolved_path_within_base [OF a b, of ext_xlsx "[u ''srv'']"] a b show ?thesis by simp
qed

text \<open>
  Claim C2 as stated fails: with working directory \<open>/srv\<close>, the name \<open>../secret\<close>
  resolves to \<open>documents/../secret.docx\<close>, which is \<open>/srv/secret.docx\<close>, and the name
  \<open>/etc/passwd\<close> resolves to \<open>/etc/passwd.docx\<close>; neither lies within
  \<open>/srv/documents\<close>.
\<close>

theorem path_escapes_base:
  "\<not> lies_within [u ''srv''] DOCS_DIR (get_path (u ''../secret'') ext_docx)
 \<and> \<not> lies_within [u ''srv''] DOCS_DIR (get_path (u ''/etc/passwd'') ext_docx)"
  by (simp add: lies_within_def DOCS_DIR_eq get_path_def endswith_def ext_docx_def
        suffix_to_prefix parse_path_def segments_def slash_def dotdot_def u_def)

section \<open>Update appends\<close>

text \<open>
  Claim C3, as amended. For every existing file that parses and every payload that the
  library takes, an update whose write succeeds returns the success message with the
  length of the payload, and leaves a file whose content is the old content followed,
  in order, by what the library stores for the elements of the payload:

  \<^item> Word: the paragraphs \<open>xs\<close>, then for each text of the payload the text the
    library reads back for it, which is the text itself when it is printable ASCII;
    a read after the update renders exactly these paragraphs.
  \<^item> PowerPoint: the slides of the presentation, then for each entry the slide that
    the second layout of the presentation makes of its title and content (empty when
    the entry lacks them); for the layouts of the library's own template and printable
    ASCII this is a slide with the title and the content as given; a read after the
    update renders exactly these slides.
  \<^item> Excel, when the workbook has a worksheet with the given title: what the file
    keeps of the rows of that sheet followed by the cells the library makes of the
    rows of the payload (formulas lose the values cached for them, and empty rows at
    the end are not kept). When the workbook has no sheet with the given title: the
    same for the rows of the payload alone, in a new sheet with the title the library
    gives it, provided no other sheet has that title. A read after the update with
    the title of that sheet, when it is not empty, renders exactly these rows.
\<close>

theorem update_appends:
  "(files s (get_path n ext_docx) = Some f \<and> docx_of f = Inr xs
      \<and> write_error s (get_path n ext_docx) = None
      \<and> list_all2 (\<lambda>y y'. para_text L y = Inr y') ys ys' \<longrightarrow>
        fst (update_docx L n ys s)
          = check @ u '' Updated Word doc '' @ n @ u '' with '' @ str_nat (length ys)
              @ u '' changes.''
      \<and> map_option docx_of (files (snd (update_docx L n ys s)) (get_path n ext_docx))
          = Some (Inr (xs @ ys'))
      \<and> read_docx repr n (snd (update_docx L n ys s))
          = py_or (join nl (xs @ ys')) (u ''(empty document)''))
 \<and> (list_all plain ys \<longrightarrow> list_all2 (\<lambda>y y'. para_text L y = Inr y') ys ys)
 \<and> (files s (get_path n ext_pptx) = Some f \<and> pptx_of f = Inr prs
      \<and> write_error s (get_path n ext_pptx) = None
      \<and> list_all2 (\<lambda>d sl. add_titled prs (dict_get d (u ''title'') [])
                              (dict_get d (u ''content'') []) = Inr sl) ds sls \<longrightarrow>
        fst (update_pptx n ds s)
          = check @ u '' Updated PowerPoint '' @ n @ u '' with '' @ str_nat (length ds)
              @ u '' new slides.''
      \<and> map_option pptx_of (files (snd (update_pptx n ds s)) (get_path n ext_pptx))
          = Some (Inr (prs\<lparr>slides := slides prs @ sls\<rparr>))
      \<and> read_pptx n (snd (update_pptx n ds s))
          = py_or (join (nl @ nl) (slides_text (prs\<lparr>slides := slides prs @ sls\<rparr>)))
             (u ''(empty presentation)''))
 \<and> (plain t \<and> plain c \<longrightarrow> two_text_slide L t c = Inr [TextShape t, TextShape c])
 \<and> (files s (get_path n ext_xlsx) = Some f \<and> xlsx_of f = Inr wb
      \<and> write_error s (get_path n ext_xlsx) = None
      \<and> sheet_index sn (sheets wb) = Some i \<and> snd (sheets wb ! i) = Worksheet old
      \<and> list_all2 (list_all2 (\<lambda>x c. xlsx_cell L x = Inr c)) rows rows' \<longrightarrow>
        fst (update_xlsx L n sn rows s)
          = check @ u '' Updated Excel file '' @ n @ u '' with '' @ str_nat (length rows)
              @ u '' rows.''
      \<and> stored_rows (snd (update_xlsx L n sn rows s)) (get_path n ext_xlsx) sn
          = Some (kept (old @ map (map Some) rows'))
      \<and> (sn \<noteq> [] \<longrightarrow>
            read_xlsx repr n (Some sn) (snd (update_xlsx L n sn rows s))
              = py_or (join nl (map (join (u '', ''))
                   (rows_text (kept (old @ map (map Some) rows')))))
                 (u ''(empty sheet)'')))
 \<and> (files s (get_path n ext_xlsx) = Some f \<and> xlsx_of f = Inr wb
      \<and> write_error s (get_path n ext_xlsx) = None
      \<and> sn \<notin> set (sheetnames wb) \<and> new_title L (sheetnames wb) sn = Inr sn'
      \<and> sn' \<notin> set (sheetnames wb)
      \<and> list_all2 (list_all2 (\<lambda>x c. xlsx_cell L x = Inr c)) rows rows' \<longrightarrow>
        fst (update_xlsx L n sn rows s)
          = check @ u '' Updated Excel file '' @ n @ u '' with '' @ str_nat (length rows)
              @ u '' rows.''
      \<and> stored_rows (snd (update_xlsx L n sn rows s)) (get_path n ext_xlsx) sn'
          = Some (kept (map (map Some) rows'))
      \<and> (sn' \<noteq> [] \<longrightarrow>
            read_xlsx repr n (Some sn') (snd (update_xlsx L n sn rows s))
              = py_or (join nl (map (join (u '', ''))
                   (rows_text (kept (map (map Some) rows')))))
                 (u ''(empty sheet)'')))"
proof (intro conjI impI)
  assume h: "files s (get_path n ext_docx) = Some f \<and> docx_of f = Inr xs
      \<and> write_error s (get_path n ext_docx) = None
      \<and> list_all2 (\<lambda>y y'. para_text L y = Inr y') ys ys'"
  then have a: "files s (get_path n ext_docx) = Some f" and b: "docx_of f = Inr xs"
    and c: "write_error s (get_path n ext_docx) = None"
    and d: "list_all2 (\<lambda>y y'. para_text L y = Inr y') ys ys'" by simp_all
  show "fst (update_docx L n ys s)
          = check @ u '' Updated Word doc '' @ n @ u '' with '' @ str_nat (length ys)
              @ u '' changes.''"
    by (rule update_docx_appends(1) [OF a b c d])
  show "map_option docx_of (files (snd (update_docx L n ys s)) (get_path n ext_docx))
          = Some (Inr (xs @ ys'))"
    by (rule update_docx_appends(2) [OF a b c d])
  show "read_docx repr n (snd (update_docx L n ys s))
          = py_or (join nl (xs @ ys')) (u ''(empty document)'')"
    by (rule update_docx_appends(3) [OF a b c d])
next
  assume "list_all plain ys"
  then show "list_all2 (\<lambda>y y'. para_text L y = Inr y') ys ys"
    by (induction ys) (simp_all add: para_text_def)
next
  assume h: "files s (get_path n ext_pptx) = Some f \<and> pptx_of f = Inr prs
      \<and> write_error s (get_path n ext_pptx) = None
      \<and> list_all2 (\<lambda>d sl. add_titled prs (dict_get d (u ''title'') [])
                              (dict_get d (u ''content'') []) = Inr sl) ds sls"
  then have a: "files s (get_path n ext_pptx) = Some f" and b: "pptx_of f = Inr prs"
    and c: "write_error s (get_path n ext_pptx) = None"
    and d: "list_all2 (\<lambda>d sl. add_titled prs (dict_get d (u ''title'') [])
                              (dict_get d (u ''content'') []) = Inr sl) ds sls" by simp_all
  show "fst (update_pptx n ds s)
          = check @ u '' Updated PowerPoint '' @ n @ u '' with '' @ str_nat (length ds)
              @ u '' new slides.''"
    by (rule update_pptx_appends(1) [OF a b c d])
  show "map_option pptx_of (files (snd (update_pptx n ds s)) (get_path n ext_pptx))
          = Some (Inr (prs\<lparr>slides := slides prs @ sls\<rparr>))"
    by (rule update_pptx_appends(2) [OF a b c d])
  show "read_pptx n (snd (update_pptx n ds s))
          = py_or (join (nl @ nl) (slides_text (prs\<lparr>slides := slides prs @ sls\<rparr>)))
             (u ''(empty presentation)'')"
    by (rule update_pptx_appends(3) [OF a b c d])
next
  assume "plain t \<and> plain c"
  then show "two_text_slide L t c = Inr [TextShape t, TextShape c]"
    by (simp add: two_text_slide_def frame_text_def)
next
  assume h: "files s (get_path n ext_xlsx) = Some f \<and> xlsx_of f = Inr wb
      \<and> write_error s (get_path n ext_xlsx) = None
      \<and> sheet_index sn (sheets wb) = Some i \<and> snd (sheets wb ! i) = Worksheet old
      \<and> list_all2 (list_all2 (\<lambda>x c. xlsx_cell L x = Inr c)) rows rows'"
  then have a: "files s (get_path n ext_xlsx) = Some f" and b: "xlsx_of f = Inr wb"
    and c: "write_error s (get_path n ext_xlsx) = None"
    and d: "sheet_index sn (sheets wb) = Some i" and e: "snd (sheets wb ! i) = Worksheet old"
    and g: "list_all2 (list_all2 (\<lambda>x c. xlsx_cell L x = Inr c)) rows rows'" by simp_all
  note upd = update_xlsx_old_sheet [OF a b c d e g]
  let ?wb = "wb\<lparr>sheets := (sheets wb)[i := (sn, Worksheet (old @ map (map Some) rows'))]\<rparr>"
  have i: "i < length (sheets wb)"
    using sheet_index_Some [OF d] by simp
  have f': "files (snd (update_xlsx L n sn rows s)) (get_path n ext_xlsx) = Some (xlsx_file ?wb)"
    by (simp add: upd)
  have x: "sheet_index sn (sheets ?wb) = Some i"
    by (simp add: sheet_index_update [OF d])
  have y: "sheets ?wb ! i = (sn, Worksheet (old @ map (map Some) rows'))"
    using i by simp
  show "fst (update_xlsx L n sn rows s)
          = check @ u '' Updated Excel file '' @ n @ u '' with '' @ str_nat (length rows)
              @ u '' rows.''"
    by (simp add: upd)
  show "stored_rows (snd (update_xlsx L n sn rows s)) (get_path n ext_xlsx) sn
          = Some (kept (old @ map (map Some) rows'))"
    by (rule stored_rows_saved [OF f' x y])
  show "read_xlsx repr n (Some sn) (snd (update_xlsx L n sn rows s))
              = py_or (join nl (map (join (u '', ''))
                   (rows_text (kept (old @ map (map Some) rows')))))
                 (u ''(empty sheet)'')" if "sn \<noteq> []"
    by (rule read_xlsx_saved [OF f' x y that])
next
  assume h: "files s (get_path n ext_xlsx) = Some f \<and> xlsx_of f = Inr wb
      \<and> write_error s (get_path n ext_xlsx) = None
      \<and> sn \<notin> set (sheetnames wb) \<and> new_title L (sheetnames wb) sn = Inr sn'
      \<and> sn' \<notin> set (sheetnames wb)
      \<and> list_all2 (list_all2 (\<lambda>x c. xlsx_cell L x = Inr c)) rows rows'"
  then have a: "files s (get_path n ext_xlsx) = Some f" and b: "xlsx_of f = Inr wb"
    and c: "write_error s (get_path n ext_xlsx) = None"
    and d: "sn \<notin> set (sheetnames wb)" and e: "new_title L (sheetnames wb) sn = Inr sn'"
    and k: "sn' \<notin> set (sheetnames wb)"
    and g: "list_all2 (list_all2 (\<lambda>x c. xlsx_cell L x = Inr c)) rows rows'" by simp_all
  note upd = update_xlsx_new_sheet [OF a b c d e g]
  let ?wb = "wb\<lparr>sheets := sheets wb @ [(sn', Worksheet (map (map Some) rows'))]\<rparr>"
  have f': "files (snd (update_xlsx L n sn rows s)) (get_path n ext_xlsx) = Some (xlsx_file ?wb)"
    by (simp add: upd)
  have x: "sheet_index sn' (sheets ?wb) = Some (length (sheets wb))"
    using k by (simp add: sheet_index_new sheetnames_def)
  have y: "sheets ?wb ! length (sheets wb) = (sn', Worksheet (map (map Some) rows'))"
    by simp
  show "fst (update_xlsx L n sn rows s)
          = check @ u '' Updated Excel file '' @ n @ u '' with '' @ str_nat (length rows)
              @ u '' rows.''"
    by (simp add: upd)
  show "stored_rows (snd (update_xlsx L n sn rows s)) (get_path n ext_xlsx) sn'
          = Some (kept (map (map Some) rows'))"
    by (rule stored_rows_saved [OF f' x y])
  show "read_xlsx repr n (Some sn') (snd (update_xlsx L n sn rows s))
              = py_or (join nl (map (join (u '', ''))
                   (rows_text (kept (map (map Some) rows')))))
                 (u ''(empty sheet)'')" if "sn' \<noteq> []"
    by (rule read_xlsx_saved [OF f' x y that])
qed

text \<open>
  The three documents \<open>memo\<close>: two more paragraphs, one more slide, one more row in the
  sheet \<open>Sheet1\<close>, and one row in a new sheet \<open>Sheet2\<close>.
\<close>

theorem update_appends_witness:
  "files office_fs (get_path memo ext_docx) = Some (docx_file [u ''Hello''])
 \<and> docx_of (docx_file [u ''Hello'']) = Inr [u ''Hello'']
 \<and> write_error office_fs (get_path memo ext_docx) = None
 \<and> list_all plain [u ''Line 2'', u ''Line 3'']
 \<and> list_all2 (\<lambda>y y'. para_text black_box y = Inr y') [u ''Line 2'', u ''Line 3'']
      [u ''Line 2'', u ''Line 3'']
 \<and> fst (update_docx black_box memo [u ''Line 2'', u ''Line 3''] office_fs)
      = check @ u '' Updated Word doc memo with 2 changes.''
 \<and> read_docx quote_repr memo
      (snd (update_docx black_box memo [u ''Line 2'', u ''Line 3''] office_fs))
      = u ''Hello'' @ nl @ u ''Line 2'' @ nl @ u ''Line 3''
 \<and> files office_fs (get_path memo ext_pptx) = Some (pptx_file memo_deck)
 \<and> pptx_of (pptx_file memo_deck) = Inr memo_deck
 \<and> write_error office_fs (get_path memo ext_pptx) = None
 \<and> plain (u ''Next'') \<and> plain (u ''More'')
 \<and> list_all2 (\<lambda>d sl. add_titled memo_deck (dict_get d (u ''title'') [])
                        (dict_get d (u ''content'') []) = Inr sl)
      [next_slide] [[TextShape (u ''Next''), TextShape (u ''More'')]]
 \<and> fst (update_pptx memo [next_slide] office_fs)
      = check @ u '' Updated PowerPoint memo with 1 new slides.''
 \<and> read_pptx memo (snd (update_pptx memo [next_slide] office_fs))
      = u ''Slide 1:'' @ nl @ u ''Title'' @ nl @ u ''Body'' @ nl @ nl
          @ u ''Slide 2:'' @ nl @ u ''Next'' @ nl @ u ''More''
 \<and> files office_fs (get_path memo ext_xlsx) = Some (xlsx_file memo_book)
 \<and> xlsx_of (xlsx_file memo_book) = Inr memo_book
 \<and> write_error office_fs (get_path memo ext_xlsx) = None
 \<and> sheet_index (u ''Sheet1'') (sheets memo_book) = Some 0
 \<and> snd (sheets memo_book ! 0) = Worksheet [[Some (Text (u ''a'')), Some (Text (u ''b''))]]
 \<and> list_all2 (list_all2 (\<lambda>x c. xlsx_cell black_box x = Inr c)) [[u ''c'', u ''d'']]
      [[Text (u ''c''), Text (u ''d'')]]
 \<and> u ''Sheet1'' \<noteq> []
 \<and> fst (update_xlsx black_box memo (u ''Sheet1'') [[u ''c'', u ''d'']] office_fs)
      = check @ u '' Updated Excel file memo with 1 rows.''
 \<and> read_xlsx quote_repr memo (Some (u ''Sheet1''))
        (snd (update_xlsx black_box memo (u ''Sheet1'') [[u ''c'', u ''d'']] office_fs))
      = u ''a, b'' @ nl @ u ''c, d''
 \<and> u ''Sheet2'' \<notin> set (sheetnames memo_book)
 \<and> new_title black_box (sheetnames memo_book) (u ''Sheet2'') = Inr (u ''Sheet2'')
 \<and> u ''Sheet2'' \<noteq> []
 \<and> fst (update_xlsx black_box memo (u ''Sheet2'') [[u ''c'', u ''d'']] office_fs)
      = check @ u '' Updated Excel file memo with 1 rows.''
 \<and> read_xlsx quote_repr memo (Some (u ''Sheet2''))
        (snd (update_xlsx black_box memo (u ''Sheet2'') [[u ''c'', u ''d'']] office_fs))
      = u ''c, d''"
proof -
  have h1: "list_all plain [u ''Line 2'', u ''Line 3'']"
    "list_all2 (\<lambda>y y'. para_text black_box y = Inr y') [u ''Line 2'', u ''Line 3'']
      [u ''Line 2'', u ''Line 3'']"
    by simp_all
  have w: "fst (update_docx black_box memo [u ''Line 2'', u ''Line 3''] office_fs)
      = check @ u '' Updated Word doc memo with 2 changes.''"
    "read_docx quote_repr memo
      (snd (update_docx black_box memo [u ''Line 2'', u ''Line 3''] office_fs))
      = u ''Hello'' @ nl @ u ''Line 2'' @ nl @ u ''Line 3''"
    using update_appends [where s = office_fs and n = memo and f = "docx_file [u ''Hello'']"
        and xs = "[u ''Hello'']" and ys = "[u ''Line 2'', u ''Line 3'']"
        and ys' = "[u ''Line 2'', u ''Line 3'']" and L = black_box and repr = quote_repr]
      office_lookup saved_views h1
    by (simp_all add: str_nat_digit py_or_def memo_def u_def nl_def)
  have h2: "list_all2 (\<lambda>d sl. add_titled memo_deck (dict_get d (u ''title'') [])
                        (dict_get d (u ''content'') []) = Inr sl)
      [next_slide] [[TextShape (u ''Next''), TextShape (u ''More'')]]"
    by (simp add: memo_deck_def two_text_slide_def dict_get_def next_slide_def)
  have p: "fst (update_pptx memo [next_slide] office_fs)
      = check @ u '' Updated PowerPoint memo with 1 new slides.''"
    "read_pptx memo (snd (update_pptx memo [next_slide] office_fs))
      = u ''Slide 1:'' @ nl @ u ''Title'' @ nl @ u ''Body'' @ nl @ nl
          @ u ''Slide 2:'' @ nl @ u ''Next'' @ nl @ u ''More''"
    using update_appends [where s = office_fs and n = memo and f = "pptx_file memo_deck"
        and prs = memo_deck and ds = "[next_slide]"
        and sls = "[[TextShape (u ''Next''), TextShape (u ''More'')]]"]
      office_lookup saved_views h2
    by (simp_all add: str_nat_digit py_or_def memo_def u_def nl_def slides_text_def
        slide_text_def memo_deck_def)
  have sv: "saved memo_book = memo_book"
    by (simp add: saved_def memo_book_def kept_def trim_def)
  have h3: "sheet_index (u ''Sheet1'') (sheets memo_book) = Some 0"
    "snd (sheets memo_book ! 0) = Worksheet [[Some (Text (u ''a'')), Some (Text (u ''b''))]]"
    "list_all2 (list_all2 (\<lambda>x c. xlsx_cell black_box x = Inr c)) [[u ''c'', u ''d'']]
      [[Text (u ''c''), Text (u ''d'')]]"
    "u ''Sheet2'' \<notin> set (sheetnames memo_book)"
    "new_title black_box (sheetnames memo_book) (u ''Sheet2'') = Inr (u ''Sheet2'')"
    by (simp_all add: memo_book_def sheetnames_def)
  have x: "fst (update_xlsx black_box memo (u ''Sheet1'') [[u ''c'', u ''d'']] office_fs)
      = check @ u '' Updated Excel file memo with 1 rows.''"
    "read_xlsx quote_repr memo (Some (u ''Sheet1''))
        (snd (update_xlsx black_box memo (u ''Sheet1'') [[u ''c'', u ''d'']] office_fs))
      = u ''a, b'' @ nl @ u ''c, d''"
    using update_appends [where s = office_fs and n = memo and f = "xlsx_file memo_book"
        and wb = memo_book and sn = "u ''Sheet1''" and i = 0
        and old = "[[Some (Text (u ''a'')), Some (Text (u ''b''))]]"
        and rows = "[[u ''c'', u ''d'']]" and rows' = "[[Text (u ''c''), Text (u ''d'')]]"
        and L = black_box and repr = quote_repr]
      office_lookup saved_views sv h3
    by (simp_all add: kept_def trim_def str_nat_digit py_or_def memo_def u_def nl_def
        rows_text_def iter_rows_def width_def cell_text_def)
  have y: "fst (update_xlsx black_box memo (u ''Sheet2'') [[u ''c'', u ''d'']] office_fs)
      = check @ u '' Updated Excel file memo with 1 rows.''"
    "read_xlsx quote_repr memo (Some (u ''Sheet2''))
        (snd (update_xlsx black_box memo (u ''Sheet2'') [[u ''c'', u ''d'']] office_fs))
      = u ''c, d''"
    using update_appends [where s = office_fs and n = memo and f = "xlsx_file memo_book"
        and wb = memo_book and sn = "u ''Sheet2''" and sn' = "u ''Sheet2''"
        and rows = "[[u ''c'', u ''d'']]" and rows' = "[[Text (u ''c''), Text (u ''d'')]]"
        and L = black_box and repr = quote_repr]
      office_lookup saved_views sv h3
    by (simp_all add: kept_def trim_def str_nat_digit py_or_def memo_def u_def nl_def
        rows_text_def iter_rows_def width_def cell_text_def)
  from w p x y h1 h2 h3 office_lookup saved_views sv show ?thesis by simp
qed

text \<open>
  Claim C3 as stated fails for the empty sheet name: \<open>update_xlsx\<close> appends the row to a
  sheet it creates and reports one row, and \<open>read_xlsx\<close> with the same sheet name takes
  the empty name for no name and shows the active sheet, without the row.
\<close>

theorem unnamed_sheet_not_read_back:
  "fst (update_xlsx black_box book [] [[u ''a'']] book_fs)
     = check @ u '' Updated Excel file book with 1 rows.''
 \<and> read_xlsx quote_repr book (Some []) (snd (update_xlsx black_box book [] [[u ''a'']] book_fs))
     = u ''x''
 \<and> \<not> contains (read_xlsx quote_repr book (Some [])
                    (snd (update_xlsx black_box book [] [[u ''a'']] book_fs))) (u ''a'')"
proof -
  let ?wb = "\<lparr>sheets = [(u ''Sheet1'', Worksheet [[Some (Text (u ''x''))]])],
              active_index = 0\<rparr>"
  have sv: "saved ?wb = ?wb"
    by (simp add: saved_def kept_def trim_def)
  have v: "xlsx_of (xlsx_file ?wb) = Inr ?wb"
    by (simp add: saved_views sv)
  have t: "[] \<notin> set (sheetnames ?wb)" "new_title black_box (sheetnames ?wb) [] = Inr (u ''Sheet'')"
    by (simp_all add: sheetnames_def u_def)
  have c: "list_all2 (list_all2 (\<lambda>x c. xlsx_cell black_box x = Inr c)) [[u ''a'']]
      [[Text (u ''a'')]]"
    by simp
  note upd = update_xlsx_new_sheet [OF book_lookup(1) v book_lookup(2) t c]
  show ?thesis
    unfolding upd
    by (simp add: read_xlsx_def xlsx_file_def saved_def kept_def trim_def choose_sheet_def
        active_rows_def active_def sheet_rows_def rows_text_def iter_rows_def width_def
        cell_text_def py_or_def str_nat_digit book_def u_def)
qed


section \<open>Lifecycle guards\<close>

text \<open>
  When \<open>path.exists()\<close> answers, the lifecycle guards hold for every file name and
  each format: a create on a path that exists returns the AlreadyExists failure and
  leaves the file system as it was; a read, update or delete on a path that does not
  exist returns the NotFound failure (update and delete leaving the file system as it
  was); and after a delete that has succeeded, a second delete of the same name returns
  NotFound.
\<close>

lemma guards_of_create:
  assumes "path_exists s (get_path n e)"
  shows "e = ext_docx \<Longrightarrow> create_docx L n c s = (AlreadyExists (get_path n e), s)"
    and "e = ext_xlsx \<Longrightarrow> create_xlsx L n sn d s = (AlreadyExists (get_path n e), s)"
    and "e = ext_pptx \<Longrightarrow> create_pptx L n t c s = (AlreadyExists (get_path n e), s)"
  using assms
  by (simp_all add: create_docx_existing create_xlsx_existing create_pptx_existing)

lemma guards_of_the_rest:
  assumes "\<not> path_exists s (get_path n e)"
  shows "e = ext_docx \<Longrightarrow> read_docx repr n s = NotFound (get_path n e)
           \<and> update_docx L n ch s = (NotFound (get_path n e), s)
           \<and> delete_docx n s = (NotFound (get_path n e), s)"
    and "e = ext_xlsx \<Longrightarrow> read_xlsx repr n osn s = NotFound (get_path n e)
           \<and> update_xlsx L n sn rows s = (NotFound (get_path n e), s)
           \<and> delete_xlsx n s = (NotFound (get_path n e), s)"
    and "e = ext_pptx \<Longrightarrow> read_pptx n s = NotFound (get_path n e)
           \<and> update_pptx n sl s = (NotFound (get_path n e), s)
           \<and> delete_pptx n s = (NotFound (get_path n e), s)"
  using assms
  by (simp_all add: path_exists_def read_docx_def update_docx_def delete_docx_def
      read_xlsx_def update_xlsx_def delete_xlsx_def read_pptx_def update_pptx_def
      delete_pptx_def NotFound_def)

lemma second_delete:
  "prefix bin (fst (delete_docx n s)) \<Longrightarrow>
     fst (delete_docx n (snd (delete_docx n s))) = NotFound (get_path n ext_docx)"
  "prefix bin (fst (delete_xlsx n s)) \<Longrightarrow>
     fst (delete_xlsx n (snd (delete_xlsx n s))) = NotFound (get_path n ext_xlsx)"
  "prefix bin (fst (delete_pptx n s)) \<Longrightarrow>
     fst (delete_pptx n (snd (delete_pptx n s))) = NotFound (get_path n ext_pptx)"
  by (auto simp: delete_docx_def delete_xlsx_def delete_pptx_def Let_def os_remove_def
      NotFound_def split: option.splits sum.splits)

text \<open>The path of a name without a slash that lacks the suffix.\<close>

lemma simple_name_path:
  assumes "slash \<notin> set n" "n \<noteq> []" "\<not> endswith n e" "slash \<notin> set e" "2 \<le> length e"
  shows "get_path n e = Path 0 [u ''documents'', n @ e]"
proof -
  have r: "root_of (n @ e) = 0"
    using assms(1,2) by (cases n) (auto simp: root_of_zero)
  have "n @ e \<noteq> u ''.''"
  proof
    assume "n @ e = u ''.''"
    then have "length (n @ e) = length (u ''.'')" by simp
    with assms(2,5) show False by (simp add: u_def)
  qed
  then have "segments (n @ e) = [n @ e]"
    using assms(1,2,4) by (simp add: segments_def split_sep_plain)
  with r assms(3) show ?thesis
    by (simp add: get_path_def DOCS_DIR_eq)
qed

lemma long_name_paths:
  "get_path long_name ext_docx = Path 0 [u ''documents'', long_name @ ext_docx]"
  "get_path long_name ext_xlsx = Path 0 [u ''documents'', long_name @ ext_xlsx]"
  "get_path long_name ext_pptx = Path 0 [u ''documents'', long_name @ ext_pptx]"
proof -
  have s: "slash \<notin> set long_name" "long_name \<noteq> []"
    by (simp_all add: long_name_def slash_def)
  have "\<not> suffix e long_name" if "46 \<in> set e" for e
  proof
    assume "suffix e long_name"
    then have "set e \<subseteq> set long_name" by (rule set_mono_suffix)
    with that show False by (auto simp: long_name_def)
  qed
  then have n: "\<not> endswith long_name ext_docx" "\<not> endswith long_name ext_xlsx"
    "\<not> endswith long_name ext_pptx"
    by (simp_all add: endswith_def ext_docx_def ext_xlsx_def ext_pptx_def u_def)
  show "get_path long_name ext_docx = Path 0 [u ''documents'', long_name @ ext_docx]"
    by (rule simple_name_path [OF s n(1)]) (simp_all add: ext_docx_def u_def slash_def)
  show "get_path long_name ext_xlsx = Path 0 [u ''documents'', long_name @ ext_xlsx]"
    by (rule simple_name_path [OF s n(2)]) (simp_all add: ext_xlsx_def u_def slash_def)
  show "get_path long_name ext_pptx = Path 0 [u ''documents'', long_name @ ext_pptx]"
    by (rule simple_name_path [OF s n(3)]) (simp_all add: ext_pptx_def u_def slash_def)
qed

lemma long_name_stat:
  "stat_error name_limit_fs (Path 0 [u ''documents'', long_name @ e])
     = Some (name_too_long (Path 0 [u ''documents'', long_name @ e]))"
  "files name_limit_fs p = None"
  by (simp_all add: name_limit_fs_def long_name_def u_def)

text \<open>
  Claim C4, at the input where the code departs from it. The name is 300 letters \<open>a\<close>,
  on a file system that allows 255 characters for a name and holds no file. The
  resolved path is absent, so the claim has read, update and delete return NotFound.
  In each of the three formats the three tools raise instead: \<open>path.exists()\<close> stands
  before the \<open>try\<close> block and raises the \<open>OSError\<close> of the file system.
\<close>

theorem long_name_raises:
  "str_path (get_path long_name ext_docx) = u ''documents/'' @ replicate 300 97 @ u ''.docx''
 \<and> files name_limit_fs (get_path long_name ext_docx) = None
 \<and> files name_limit_fs (get_path long_name ext_xlsx) = None
 \<and> files name_limit_fs (get_path long_name ext_pptx) = None
 \<and> tool_read_docx quote_repr long_name name_limit_fs
      = Raised (name_too_long (get_path long_name ext_docx))
 \<and> tool_update_docx black_box long_name [u ''x''] name_limit_fs
      = Raised (name_too_long (get_path long_name ext_docx))
 \<and> tool_delete_docx long_name name_limit_fs
      = Raised (name_too_long (get_path long_name ext_docx))
 \<and> tool_read_xlsx quote_repr long_name None name_limit_fs
      = Raised (name_too_long (get_path long_name ext_xlsx))
 \<and> tool_update_xlsx black_box long_name (u ''Sheet1'') [[u ''x'']] name_limit_fs
      = Raised (name_too_long (get_path long_name ext_xlsx))
 \<and> tool_delete_xlsx long_name name_limit_fs
      = Raised (name_too_long (get_path long_name ext_xlsx))
 \<and> tool_read_pptx long_name name_limit_fs
      = Raised (name_too_long (get_path long_name ext_pptx))
 \<and> tool_update_pptx long_name [Map.empty] name_limit_fs
      = Raised (name_too_long (get_path long_name ext_pptx))
 \<and> tool_delete_pptx long_name name_limit_fs
      = Raised (name_too_long (get_path long_name ext_pptx))
 \<and> tool_read_docx quote_repr long_name name_limit_fs
      \<noteq> Returned (NotFound (get_path long_name ext_docx))
 \<and> tool_delete_docx long_name name_limit_fs
      \<noteq> Returned (NotFound (get_path long_name ext_docx), name_limit_fs)"
proof -
  have p: "str_path (get_path long_name ext_docx)
      = u ''documents/'' @ replicate 300 97 @ u ''.docx''"
    unfolding long_name_paths
    by (simp add: py_or_def long_name_def ext_docx_def u_def slash_def)
  have d: "tool_read_docx quote_repr long_name name_limit_fs
      = Raised (name_too_long (get_path long_name ext_docx))"
    "tool_update_docx black_box long_name [u ''x''] name_limit_fs
      = Raised (name_too_long (get_path long_name ext_docx))"
    "tool_delete_docx long_name name_limit_fs
      = Raised (name_too_long (get_path long_name ext_docx))"
    by (simp_all add: tool_read_docx_def tool_update_docx_def tool_delete_docx_def
        after_exists_def long_name_paths long_name_stat)
  have x: "tool_read_xlsx quote_repr long_name None name_limit_fs
      = Raised (name_too_long (get_path long_name ext_xlsx))"
    "tool_update_xlsx black_box long_name (u ''Sheet1'') [[u ''x'']] name_limit_fs
      = Raised (name_too_long (get_path long_name ext_xlsx))"
    "tool_delete_xlsx long_name name_limit_fs
      = Raised (name_too_long (get_path long_name ext_xlsx))"
    by (simp_all add: tool_read_xlsx_def tool_update_xlsx_def tool_delete_xlsx_def
        after_exists_def long_name_paths long_name_stat)
  have q: "tool_read_pptx long_name name_limit_fs
      = Raised (name_too_long (get_path long_name ext_pptx))"
    "tool_update_pptx long_name [Map.empty] name_limit_fs
      = Raised (name_too_long (get_path long_name ext_pptx))"
    "tool_delete_pptx long_name name_limit_fs
      = Raised (name_too_long (get_path long_name ext_pptx))"
    by (simp_all add: tool_read_pptx_def tool_update_pptx_def tool_delete_pptx_def
        after_exists_def long_name_paths long_name_stat)
  from p d x q long_name_stat(2) show ?thesis by simp
qed


section \<open>Suffix normalisation\<close>

text \<open>
  Claim C5. For every name and suffix, the resolver joins to the documents directory
  the name itself when it already ends with the suffix, and the name with the suffix
  appended otherwise (in both source files). Hence \<open>report\<close> and \<open>report.docx\<close>
  resolve to the same path, and so do any name that lacks the suffix and that name with
  the suffix. And for each format: when a create under one of these two names has
  succeeded, a create under either of them returns AlreadyExists.
\<close>

theorem suffix_normalisation:
  "get_path name ext = joinpath DOCS_DIR (if endswith name ext then name else name @ ext)
 \<and> get_doc_path name
      = joinpath DOCS_DIR (if endswith name (u ''.docx'') then name else name @ u ''.docx'')
 \<and> get_path (u ''report'') ext_docx = get_path (u ''report.docx'') ext_docx
 \<and> get_doc_path (u ''report'') = get_doc_path (u ''report.docx'')
 \<and> (\<not> endswith name ext \<longrightarrow> get_path (name @ ext) ext = get_path name ext)
 \<and> (\<not> endswith name ext_docx \<and> (n1 = name \<or> n1 = name @ ext_docx)
      \<and> (n2 = name \<or> n2 = name @ ext_docx) \<and> prefix check (fst (create_docx L n1 c s)) \<longrightarrow>
        fst (create_docx L n2 c' (snd (create_docx L n1 c s))) = AlreadyExists (get_path name ext_docx))
 \<and> (\<not> endswith name ext_xlsx \<and> (n1 = name \<or> n1 = name @ ext_xlsx)
      \<and> (n2 = name \<or> n2 = name @ ext_xlsx) \<and> prefix check (fst (create_xlsx L n1 sn d s)) \<longrightarrow>
        fst (create_xlsx L n2 sn' d' (snd (create_xlsx L n1 sn d s)))
          = AlreadyExists (get_path name ext_xlsx))
 \<and> (\<not> endswith name ext_pptx \<and> (n1 = name \<or> n1 = name @ ext_pptx)
      \<and> (n2 = name \<or> n2 = name @ ext_pptx) \<and> prefix check (fst (create_pptx L n1 t c s)) \<longrightarrow>
        fst (create_pptx L n2 t' c' (snd (create_pptx L n1 t c s)))
          = AlreadyExists (get_path name ext_pptx))
 \<and> (\<not> endswith name ext_docx \<and> (n1 = name \<or> n1 = name @ ext_docx)
      \<and> (n2 = name \<or> n2 = name @ ext_docx) \<and> prefix check (fst (create_docx_copy L n1 c s)) \<longrightarrow>
        fst (create_docx_copy L n2 c' (snd (create_docx_copy L n1 c s)))
          = AlreadyExists (get_doc_path name))"
proof -
  have a: "get_path name ext = joinpath DOCS_DIR (if endswith name ext then name else name @ ext)"
    by (simp add: get_path_def)
  have b: "get_doc_path name
      = joinpath DOCS_DIR (if endswith name (u ''.docx'') then name else name @ u ''.docx'')"
    by (simp add: get_doc_path_def)
  have c: "get_path (u ''report'') ext_docx = get_path (u ''report.docx'') ext_docx"
    by (simp add: get_path_def endswith_def ext_docx_def u_def suffix_to_prefix)
  have d: "get_doc_path (u ''report'') = get_doc_path (u ''report.docx'')"
    using c by (simp add: get_doc_path_eq)
  have e: "\<not> endswith name ext \<longrightarrow> get_path (name @ ext) ext = get_path name ext"
    by (simp add: get_path_append)
  have f: "\<not> endswith name ext_docx \<and> (n1 = name \<or> n1 = name @ ext_docx)
      \<and> (n2 = name \<or> n2 = name @ ext_docx) \<and> prefix check (fst (create_docx L n1 c s)) \<longrightarrow>
        fst (create_docx L n2 c' (snd (create_docx L n1 c s))) = AlreadyExists (get_path name ext_docx)"
  proof (intro impI, elim conjE)
    assume h: "\<not> endswith name ext_docx" "n1 = name \<or> n1 = name @ ext_docx"
      "n2 = name \<or> n2 = name @ ext_docx" "prefix check (fst (create_docx L n1 c s))"
    have p: "get_path n1 ext_docx = get_path name ext_docx"
      "get_path n2 ext_docx = get_path name ext_docx"
      using h(1,2,3) by (auto simp: get_path_append)
    from create_docx_success_exists [OF h(4)] p
    show "fst (create_docx L n2 c' (snd (create_docx L n1 c s))) = AlreadyExists (get_path name ext_docx)"
      by (simp add: create_docx_existing)
  qed
  have g: "\<not> endswith name ext_xlsx \<and> (n1 = name \<or> n1 = name @ ext_xlsx)
      \<and> (n2 = name \<or> n2 = name @ ext_xlsx) \<and> prefix check (fst (create_xlsx L n1 sn d s)) \<longrightarrow>
        fst (create_xlsx L n2 sn' d' (snd (create_xlsx L n1 sn d s)))
          = AlreadyExists (get_path name ext_xlsx)"
  proof (intro impI, elim conjE)
    assume h: "\<not> endswith name ext_xlsx" "n1 = name \<or> n1 = name @ ext_xlsx"
      "n2 = name \<or> n2 = name @ ext_xlsx" "prefix check (fst (create_xlsx L n1 sn d s))"
    have p: "get_path n1 ext_xlsx = get_path name ext_xlsx"
      "get_path n2 ext_xlsx = get_path name ext_xlsx"
      using h(1,2,3) by (auto simp: get_path_append)
    from create_xlsx_success_exists [OF h(4)] p
    show "fst (create_xlsx L n2 sn' d' (snd (create_xlsx L n1 sn d s)))
          = AlreadyExists (get_path name ext_xlsx)"
      by (simp add: create_xlsx_existing)
  qed
  have i: "\<not> endswith name ext_pptx \<and> (n1 = name \<or> n1 = name @ ext_pptx)
      \<and> (n2 = name \<or> n2 = name @ ext_pptx) \<and> prefix check (fst (create_pptx L n1 t c s)) \<longrightarrow>
        fst (create_pptx L n2 t' c' (snd (create_pptx L n1 t c s)))
          = AlreadyExists (get_path name ext_pptx)"
  proof (intro impI, elim conjE)
    assume h: "\<not> endswith name ext_pptx" "n1 = name \<or> n1 = name @ ext_pptx"
      "n2 = name \<or> n2 = name @ ext_pptx" "prefix check (fst (create_pptx L n1 t c s))"
    have p: "get_path n1 ext_pptx = get_path name ext_pptx"
      "get_path n2 ext_pptx = get_path name ext_pptx"
      using h(1,2,3) by (auto simp: get_path_append)
    from create_pptx_success_exists [OF h(4)] p
    show "fst (create_pptx L n2 t' c' (snd (create_pptx L n1 t c s)))
          = AlreadyExists (get_path name ext_pptx)"
      by (simp add: create_pptx_existing)
  qed
  have j: "\<not> endswith name ext_docx \<and> (n1 = name \<or> n1 = name @ ext_docx)
      \<and> (n2 = name \<or> n2 = name @ ext_docx) \<and> prefix check (fst (create_docx_copy L n1 c s)) \<longrightarrow>
        fst (create_docx_copy L n2 c' (snd (create_docx_copy L n1 c s)))
          = AlreadyExists (get_doc_path name)"
  proof (intro impI, elim conjE)
    assume h: "\<not> endswith name ext_docx" "n1 = name \<or> n1 = name @ ext_docx"
      "n2 = name \<or> n2 = name @ ext_docx" "prefix check (fst (create_docx_copy L n1 c s))"
    have p: "get_path n1 ext_docx = get_path name ext_docx"
      "get_path n2 ext_docx = get_path name ext_docx"
      using h(1,2,3) by (auto simp: get_path_append)
    from create_docx_copy_success_exists [OF h(4)] p
    show "fst (create_docx_copy L n2 c' (snd (create_docx_copy L n1 c s)))
          = AlreadyExists (get_doc_path name)"
      by (simp add: create_docx_copy_existing get_doc_path_eq)
  qed
  from a b c d e f g i j show ?thesis by blast
qed

text \<open>The names \<open>report\<close> and \<open>report.docx\<close> (and so on), on the empty file system.\<close>

theorem suffix_normalisation_witness:
  "\<not> endswith report ext_docx
 \<and> get_path (report @ ext_docx) ext_docx = get_path report ext_docx
 \<and> prefix check (fst (create_docx black_box report (u ''a'') empty_fs))
 \<and> fst (create_docx black_box (report @ ext_docx) (u ''b'') (snd (create_docx black_box report (u ''a'') empty_fs)))
      = AlreadyExists (get_path report ext_docx)
 \<and> \<not> endswith report ext_xlsx
 \<and> prefix check (fst (create_xlsx black_box report (u ''S'') None empty_fs))
 \<and> fst (create_xlsx black_box (report @ ext_xlsx) (u ''S'') None
           (snd (create_xlsx black_box report (u ''S'') None empty_fs)))
      = AlreadyExists (get_path report ext_xlsx)
 \<and> \<not> endswith report ext_pptx
 \<and> prefix check (fst (create_pptx black_box report (u ''T'') (u ''a'') empty_fs))
 \<and> fst (create_pptx black_box (report @ ext_pptx) (u ''T'') (u ''b'')
           (snd (create_pptx black_box report (u ''T'') (u ''a'') empty_fs)))
      = AlreadyExists (get_path report ext_pptx)
 \<and> prefix check (fst (create_docx_copy black_box report (u ''a'') empty_fs))
 \<and> fst (create_docx_copy black_box (report @ ext_docx) (u ''b'')
           (snd (create_docx_copy black_box report (u ''a'') empty_fs)))
      = AlreadyExists (get_doc_path report)"
proof -
  have p: "get_path (report @ ext_docx) ext_docx = get_path report ext_docx"
    using suffix_normalisation [of report ext_docx] report_plain by simp
  have w1: "fst (create_docx black_box (report @ ext_docx) (u ''b'')
        (snd (create_docx black_box report (u ''a'') empty_fs))) = AlreadyExists (get_path report ext_docx)"
    and w4: "fst (create_docx_copy black_box (report @ ext_docx) (u ''b'')
        (snd (create_docx_copy black_box report (u ''a'') empty_fs))) = AlreadyExists (get_doc_path report)"
    using suffix_normalisation [of report ext_docx report "report @ ext_docx" black_box
        "u ''a''" empty_fs "u ''b''"] report_plain create_empty_fs by simp_all
  have w2: "fst (create_xlsx black_box (report @ ext_xlsx) (u ''S'') None
        (snd (create_xlsx black_box report (u ''S'') None empty_fs))) = AlreadyExists (get_path report ext_xlsx)"
    using suffix_normalisation [of report ext_docx report "report @ ext_xlsx" black_box _
        empty_fs _ "u ''S''" None "u ''S''" None] report_plain create_empty_fs by simp
  have w3: "fst (create_pptx black_box (report @ ext_pptx) (u ''T'') (u ''b'')
        (snd (create_pptx black_box report (u ''T'') (u ''a'') empty_fs))) = AlreadyExists (get_path report ext_pptx)"
    using suffix_normalisation [of report ext_docx report "report @ ext_pptx" black_box
        "u ''a''" empty_fs "u ''b''" _ _ _ _ "u ''T''" "u ''T''"] report_plain create_empty_fs
    by simp
  from p w1 w2 w3 w4 report_plain create_empty_fs show ?thesis by simp
qed


section \<open>Diagnosis in the three adapters\<close>

text \<open>
  Claim C6, at the input where server.py departs from it. A workbook stored as
  \<open>report.docx\<close> is diagnosed by \<open>read_docx\<close>, which lists the entries of the archive.
  A Word document stored as \<open>report.xlsx\<close> or \<open>report.pptx\<close> is an archive without the
  entry of a workbook or of a presentation, and \<open>read_xlsx\<close> and \<open>read_pptx\<close> return the
  generic failure with the message of the parse exception, without looking into the
  archive.
\<close>

theorem other_formats_not_diagnosed:
  "read_docx quote_repr report misnamed_fs
     = cross @ u '' Not a Word file. Contains: [''
         @ [39] @ u ''[Content_Types].xml'' @ [39] @ u '', ''
         @ [39] @ u ''_rels/.rels'' @ [39] @ u '', ''
         @ [39] @ u ''xl/workbook.xml'' @ [39] @ u '']...''
 \<and> namelist (docx_file [u ''Hello''])
     = Some [u ''[Content_Types].xml'', u ''_rels/.rels'', u ''word/document.xml'']
 \<and> read_xlsx quote_repr report None misnamed_fs = cross @ u '' Failed to read Excel: '' @ foreign
 \<and> read_pptx report misnamed_fs = cross @ u '' Failed to read PowerPoint: '' @ foreign"
proof -
  have a: "read_docx quote_repr report misnamed_fs
     = cross @ u '' Not a Word file. Contains: [''
         @ [39] @ u ''[Content_Types].xml'' @ [39] @ u '', ''
         @ [39] @ u ''_rels/.rels'' @ [39] @ u '', ''
         @ [39] @ u ''xl/workbook.xml'' @ [39] @ u '']...''"
    by (simp add: read_docx_tiers [OF misnamed_lookup(1), of foreign] xlsx_file_def
        str_list_def quote_repr_def u_def)
  have b: "read_xlsx quote_repr report None misnamed_fs
      = cross @ u '' Failed to read Excel: '' @ foreign"
    by (rule read_other_formats_generic(1) [OF misnamed_lookup(2)]) (simp add: docx_file_def)
  have c: "read_pptx report misnamed_fs = cross @ u '' Failed to read PowerPoint: '' @ foreign"
    by (rule read_other_formats_generic(2) [OF misnamed_lookup(3)]) (simp add: docx_file_def)
  from a b c show ?thesis by (simp add: docx_file_def)
qed


section \<open>Results and markers\<close>

text \<open>
  Claim C7, as amended. For every input, every exception that a library or the file
  system raises inside the \<open>try\<close> block of a create, read, update or delete operation
  ends in the \<open>except\<close> clause of the operation, which returns a string. Every create,
  update and delete returns a string that begins with one of the three markers of the
  source: the success marker for a create or update that succeeds, the bin marker for a
  delete that succeeds, the failure marker otherwise. Every read returns either a string
  that begins with the failure marker or, when the file parses, the rendered content
  itself (or the empty marker of the format), with no outcome marker before it.
\<close>

theorem results_marked_or_content:
  "marked (fst (create_docx L n c s)) \<and> marked (fst (update_docx L n ch s))
 \<and> marked (fst (delete_docx n s))
 \<and> marked (fst (create_xlsx L n sn d s)) \<and> marked (fst (update_xlsx L n sn rows s))
 \<and> marked (fst (delete_xlsx n s))
 \<and> marked (fst (create_pptx L n t c s)) \<and> marked (fst (update_pptx n ds s))
 \<and> marked (fst (delete_pptx n s))
 \<and> marked (fst (create_docx_copy L n c s)) \<and> marked (fst (update_docx_copy L n ch s))
 \<and> marked (fst (delete_docx_copy n s))
 \<and> (prefix cross (read_docx repr n s)
      \<or> (\<exists>f doc. files s (get_path n ext_docx) = Some f \<and> docx_of f = Inr doc
            \<and> read_docx repr n s = py_or (join nl (paragraphs doc)) (u ''(empty document)'')))
 \<and> (prefix cross (read_xlsx repr n osn s)
      \<or> (\<exists>f wb ws. files s (get_path n ext_xlsx) = Some f \<and> xlsx_of f = Inr wb
            \<and> choose_sheet repr wb osn = Inr ws
            \<and> read_xlsx repr n osn s
                = py_or (join nl (map (join (u '', '')) (rows_text (sheet_rows wb ws))))
                    (u ''(empty sheet)'')))
 \<and> (prefix cross (read_pptx n s)
      \<or> (\<exists>f prs. files s (get_path n ext_pptx) = Some f \<and> pptx_of f = Inr prs
            \<and> read_pptx n s
                = py_or (join (nl @ nl) (slides_text prs)) (u ''(empty presentation)'')))
 \<and> (prefix cross (read_docx_copy repr n s)
      \<or> (\<exists>f doc. files s (get_doc_path n) = Some f \<and> docx_of f = Inr doc
            \<and> read_docx_copy repr n s
                = py_or (join nl (paragraphs doc)) (u ''(empty document)'')))"
proof -
  have w: "marked (fst (create_docx L n c s))" "marked (fst (update_docx L n ch s))"
    "marked (fst (delete_docx n s))"
    by (simp_all add: create_docx_def update_docx_def delete_docx_def Let_def
        split: option.splits sum.splits)
  have x: "marked (fst (create_xlsx L n sn d s))" "marked (fst (update_xlsx L n sn rows s))"
    "marked (fst (delete_xlsx n s))"
    by (simp_all add: create_xlsx_def update_xlsx_def delete_xlsx_def Let_def
        split: option.splits sum.splits prod.splits)
  have p: "marked (fst (create_pptx L n t c s))" "marked (fst (update_pptx n ds s))"
    "marked (fst (delete_pptx n s))"
    by (simp_all add: create_pptx_def update_pptx_def delete_pptx_def Let_def
        split: option.splits sum.splits)
  have k: "marked (fst (create_docx_copy L n c s))" "marked (fst (update_docx_copy L n ch s))"
    "marked (fst (delete_docx_copy n s))"
    by (simp_all add: create_docx_copy_def update_docx_copy_def delete_docx_copy_def Let_def
        split: option.splits sum.splits)
  have r1: "prefix cross (read_docx repr n s)
      \<or> (\<exists>f doc. files s (get_path n ext_docx) = Some f \<and> docx_of f = Inr doc
            \<and> read_docx repr n s = py_or (join nl (paragraphs doc)) (u ''(empty document)''))"
    by (simp add: read_docx_def Let_def split: option.splits sum.splits)
  have r2: "prefix cross (read_xlsx repr n osn s)
      \<or> (\<exists>f wb ws. files s (get_path n ext_xlsx) = Some f \<and> xlsx_of f = Inr wb
            \<and> choose_sheet repr wb osn = Inr ws
            \<and> read_xlsx repr n osn s
                = py_or (join nl (map (join (u '', '')) (rows_text (sheet_rows wb ws))))
                    (u ''(empty sheet)''))"
    by (simp add: read_xlsx_def Let_def split: option.splits sum.splits)
  have r3: "prefix cross (read_pptx n s)
      \<or> (\<exists>f prs. files s (get_path n ext_pptx) = Some f \<and> pptx_of f = Inr prs
            \<and> read_pptx n s
                = py_or (join (nl @ nl) (slides_text prs)) (u ''(empty presentation)''))"
    by (simp add: read_pptx_def Let_def split: option.splits sum.splits)
  have r4: "prefix cross (read_docx_copy repr n s)
      \<or> (\<exists>f doc. files s (get_doc_path n) = Some f \<and> docx_of f = Inr doc
            \<and> read_docx_copy repr n s
                = py_or (join nl (paragraphs doc)) (u ''(empty document)''))"
    by (simp add: read_docx_copy_def Let_def split: option.splits sum.splits)
  from w x p k r1 r2 r3 r4 show ?thesis by blast
qed

text \<open>
  Claim C7 as stated fails for a read that succeeds: reading the Word document \<open>memo\<close>
  returns its text \<open>Hello\<close>, which begins with no marker.
\<close>

theorem read_result_unmarked:
  "read_docx quote_repr memo office_fs = u ''Hello''
 \<and> \<not> marked (read_docx quote_repr memo office_fs)"
proof -
  have r: "read_docx quote_repr memo office_fs = u ''Hello''"
    by (simp add: read_docx_def office_lookup docx_file_def paragraphs_def py_or_def)
  show ?thesis
    unfolding r by (simp add: marked_def check_def cross_def bin_def u_def)
qed


section \<open>Create, then read\<close>

text \<open>
  Claim C8, as amended. For every name and every create that succeeds, a read of the
  same name returns what the library stores for the content:

  \<^item> Word (both source files), for a content \<open>x\<close> that has a character other than white
    space: the text the library reads back for \<open>x\<close>, or \<open>(empty document)\<close> when that
    text is empty; it is \<open>x\<close> itself when \<open>x\<close> is printable ASCII.
  \<^item> PowerPoint, for a title \<open>t\<close> and a content \<open>x\<close>: \<open>Slide 1:\<close> and the texts the
    library reads back for \<open>t\<close> and \<open>x\<close>, on three lines; they are \<open>t\<close> and \<open>x\<close>
    themselves when these are printable ASCII, and then the result contains both.
  \<^item> Excel, for \<open>x\<close> as the one cell of the initial rows: the text of the cell the
    library makes of \<open>x\<close>, as a file keeps it (nothing for a formula), or
    \<open>(empty sheet)\<close> when that text is empty; it is \<open>x\<close>, or \<open>(empty sheet)\<close> for an
    empty \<open>x\<close>, when the library makes a text cell with \<open>x\<close> of it, and then the
    result contains \<open>x\<close>.
\<close>

theorem create_then_read:
  "(strip x \<noteq> [] \<and> para_text L x = Inr x' \<and> prefix check (fst (create_docx L n x s)) \<longrightarrow>
        read_docx repr n (snd (create_docx L n x s)) = py_or x' (u ''(empty document)''))
 \<and> (strip x \<noteq> [] \<and> plain x \<and> prefix check (fst (create_docx L n x s)) \<longrightarrow>
        read_docx repr n (snd (create_docx L n x s)) = x)
 \<and> (strip x \<noteq> [] \<and> para_text L x = Inr x'
      \<and> prefix check (fst (create_docx_copy L n x s)) \<longrightarrow>
        read_docx_copy repr n (snd (create_docx_copy L n x s))
          = py_or x' (u ''(empty document)''))
 \<and> (strip x \<noteq> [] \<and> plain x \<and> prefix check (fst (create_docx_copy L n x s)) \<longrightarrow>
        read_docx_copy repr n (snd (create_docx_copy L n x s)) = x)
 \<and> (frame_text L t = Inr t' \<and> frame_text L x = Inr x'
      \<and> prefix check (fst (create_pptx L n t x s)) \<longrightarrow>
        read_pptx n (snd (create_pptx L n t x s)) = u ''Slide 1:'' @ nl @ t' @ nl @ x')
 \<and> (plain t \<and> plain x \<and> prefix check (fst (create_pptx L n t x s)) \<longrightarrow>
        read_pptx n (snd (create_pptx L n t x s)) = u ''Slide 1:'' @ nl @ t @ nl @ x
      \<and> contains (read_pptx n (snd (create_pptx L n t x s))) t
      \<and> contains (read_pptx n (snd (create_pptx L n t x s))) x)
 \<and> (xlsx_cell L x = Inr c \<and> prefix check (fst (create_xlsx L n sh (Some [[x]]) s)) \<longrightarrow>
        read_xlsx repr n None (snd (create_xlsx L n sh (Some [[x]]) s))
          = py_or (cell_text (Some (forget c))) (u ''(empty sheet)''))
 \<and> (xlsx_cell L x = Inr (Text x)
      \<and> prefix check (fst (create_xlsx L n sh (Some [[x]]) s)) \<longrightarrow>
        read_xlsx repr n None (snd (create_xlsx L n sh (Some [[x]]) s))
          = py_or x (u ''(empty sheet)'')
      \<and> contains (read_xlsx repr n None (snd (create_xlsx L n sh (Some [[x]]) s))) x)"
proof -
  have d: "read_docx repr n (snd (create_docx L n x s)) = py_or x' (u ''(empty document)'')"
    if "strip x \<noteq> []" "para_text L x = Inr x'" "prefix check (fst (create_docx L n x s))"
    for x'
    using that
    by (simp add: create_docx_success [where x' = x'] read_docx_def docx_file_def
        paragraphs_def)
  have k: "read_docx_copy repr n (snd (create_docx_copy L n x s))
      = py_or x' (u ''(empty document)'')"
    if "strip x \<noteq> []" "para_text L x = Inr x'"
      "prefix check (fst (create_docx_copy L n x s))" for x'
    using that
    by (simp add: create_docx_copy_success [where x' = x'] read_docx_copy_def docx_file_def
        paragraphs_def)
  have pl: "para_text L x = Inr x \<and> py_or x (u ''(empty document)'') = x"
    if "strip x \<noteq> []" "plain x"
    using that strip_nonempty [of x] by (simp add: para_text_def py_or_def)
  have p: "read_pptx n (snd (create_pptx L n t x s)) = u ''Slide 1:'' @ nl @ t' @ nl @ x'"
    if "frame_text L t = Inr t'" "frame_text L x = Inr x'"
      "prefix check (fst (create_pptx L n t x s))" for t' x'
  proof -
    have "two_text_slide L t x = Inr [TextShape t', TextShape x']"
      using that(1,2) by (simp add: two_text_slide_def)
    from create_pptx_success [OF that(3) this] show ?thesis
      by (simp add: read_pptx_def pptx_file_def slides_text_def slide_text_def py_or_def
          str_nat_digit u_def)
  qed
  have q: "read_pptx n (snd (create_pptx L n t x s)) = u ''Slide 1:'' @ nl @ t @ nl @ x"
    if "plain t" "plain x" "prefix check (fst (create_pptx L n t x s))"
    using that by (intro p) (simp_all add: frame_text_def)
  have c1: "contains (u ''Slide 1:'' @ nl @ t @ nl @ x) t"
    using contains_after [OF contains_before [OF contains_self]] by (metis append.assoc)
  have c2: "contains (u ''Slide 1:'' @ nl @ t @ nl @ x) x"
    using contains_after [OF contains_self, of "u ''Slide 1:'' @ nl @ t @ nl" x] by simp
  have e: "read_xlsx repr n None (snd (create_xlsx L n sh (Some [[x]]) s))
          = py_or (cell_text (Some (forget c))) (u ''(empty sheet)'')"
    if "xlsx_cell L x = Inr c" "prefix check (fst (create_xlsx L n sh (Some [[x]]) s))" for c
  proof -
    from create_xlsx_success [OF that(2,1)] obtain t where
      "snd (create_xlsx L n sh (Some [[x]]) s)
        = s\<lparr>files := (files s)(get_path n ext_xlsx \<mapsto>
            xlsx_file \<lparr>sheets = [(t, Worksheet [[Some c]])], active_index = 0\<rparr>)\<rparr>"
      by blast
    then show ?thesis
      by (simp add: read_xlsx_def xlsx_file_def saved_def kept_def trim_def choose_sheet_def
          active_rows_def active_def sheet_rows_def rows_text_def iter_rows_def width_def)
  qed
  have f: "read_xlsx repr n None (snd (create_xlsx L n sh (Some [[x]]) s))
          = py_or x (u ''(empty sheet)'')"
    if "xlsx_cell L x = Inr (Text x)"
      "prefix check (fst (create_xlsx L n sh (Some [[x]]) s))"
    using e [OF that] by (simp add: cell_text_def)
  show ?thesis
    using d k pl p q c1 c2 e f contains_py_or [of x "u ''(empty sheet)''"]
    by (intro conjI impI) (simp_all del: contains.simps)
qed

text \<open>The content \<open>Hello\<close>, created on the empty file system in each format.\<close>

theorem create_then_read_witness:
  "strip (u ''Hello'') \<noteq> [] \<and> plain (u ''Hello'') \<and> plain (u ''Title'')
 \<and> para_text black_box (u ''Hello'') = Inr (u ''Hello'')
 \<and> frame_text black_box (u ''Title'') = Inr (u ''Title'')
 \<and> frame_text black_box (u ''Hello'') = Inr (u ''Hello'')
 \<and> xlsx_cell black_box (u ''Hello'') = Inr (Text (u ''Hello''))
 \<and> prefix check (fst (create_docx black_box memo (u ''Hello'') empty_fs))
 \<and> read_docx quote_repr memo (snd (create_docx black_box memo (u ''Hello'') empty_fs))
      = u ''Hello''
 \<and> prefix check (fst (create_docx_copy black_box memo (u ''Hello'') empty_fs))
 \<and> read_docx_copy quote_repr memo
      (snd (create_docx_copy black_box memo (u ''Hello'') empty_fs)) = u ''Hello''
 \<and> prefix check (fst (create_pptx black_box memo (u ''Title'') (u ''Hello'') empty_fs))
 \<and> read_pptx memo (snd (create_pptx black_box memo (u ''Title'') (u ''Hello'') empty_fs))
      = u ''Slide 1:'' @ nl @ u ''Title'' @ nl @ u ''Hello''
 \<and> contains
      (read_pptx memo (snd (create_pptx black_box memo (u ''Title'') (u ''Hello'') empty_fs)))
      (u ''Hello'')
 \<and> prefix check
      (fst (create_xlsx black_box memo (u ''Sheet1'') (Some [[u ''Hello'']]) empty_fs))
 \<and> read_xlsx quote_repr memo None
      (snd (create_xlsx black_box memo (u ''Sheet1'') (Some [[u ''Hello'']]) empty_fs))
      = u ''Hello''"
proof -
  note t = create_then_read [where x = "u ''Hello''" and x' = "u ''Hello''" and n = memo
      and s = empty_fs and repr = quote_repr and t = "u ''Title''" and t' = "u ''Title''"
      and sh = "u ''Sheet1''" and L = black_box and c = "Text (u ''Hello'')"]
  have h: "strip (u ''Hello'') \<noteq> []" "plain (u ''Hello'')" "plain (u ''Title'')"
    "para_text black_box (u ''Hello'') = Inr (u ''Hello'')"
    "frame_text black_box (u ''Title'') = Inr (u ''Title'')"
    "frame_text black_box (u ''Hello'') = Inr (u ''Hello'')"
    "xlsx_cell black_box (u ''Hello'') = Inr (Text (u ''Hello''))"
    "u ''Sheet1'' \<noteq> []"
    by (simp_all add: strip_hello)
  have g: "prefix check (fst (create_docx black_box memo (u ''Hello'') empty_fs))"
    "prefix check (fst (create_docx_copy black_box memo (u ''Hello'') empty_fs))"
    "prefix check (fst (create_pptx black_box memo (u ''Title'') (u ''Hello'') empty_fs))"
    "prefix check
      (fst (create_xlsx black_box memo (u ''Sheet1'') (Some [[u ''Hello'']]) empty_fs))"
    using create_empty_fs h(8) by simp_all
  have a: "read_docx quote_repr memo (snd (create_docx black_box memo (u ''Hello'') empty_fs))
      = u ''Hello''"
    using t h(1,2) g(1) by (simp add: py_or_def)
  have b: "read_docx_copy quote_repr memo
      (snd (create_docx_copy black_box memo (u ''Hello'') empty_fs)) = u ''Hello''"
    using t h(1,2) g(2) by (simp add: py_or_def)
  have c0: "read_pptx memo
      (snd (create_pptx black_box memo (u ''Title'') (u ''Hello'') empty_fs))
      = u ''Slide 1:'' @ nl @ u ''Title'' @ nl @ u ''Hello''"
    using t h(2,3) g(3) by simp
  have c1: "contains (u ''Slide 1:'' @ nl @ u ''Title'' @ nl @ u ''Hello'') (u ''Hello'')"
    by (simp add: u_def nl_def)
  have c: "read_pptx memo (snd (create_pptx black_box memo (u ''Title'') (u ''Hello'') empty_fs))
      = u ''Slide 1:'' @ nl @ u ''Title'' @ nl @ u ''Hello''"
    "contains
      (read_pptx memo (snd (create_pptx black_box memo (u ''Title'') (u ''Hello'') empty_fs)))
      (u ''Hello'')"
    using c0 c1 by simp_all
  have d: "read_xlsx quote_repr memo None
      (snd (create_xlsx black_box memo (u ''Sheet1'') (Some [[u ''Hello'']]) empty_fs))
      = u ''Hello''"
    using t h(7) g(4) by (simp add: py_or_def cell_text_def)
  from h g a b c d show ?thesis by simp
qed

text \<open>
  Claim C8 as stated fails. A Word document created with a tab as content holds the
  placeholder paragraph, and read returns \<open>(new document)\<close>, which has no tab. The
  second argument of \<open>create_xlsx\<close> is the sheet name: a workbook created with \<open>X\<close>
  there has no rows, and read returns \<open>(empty sheet)\<close>.
\<close>

theorem blank_content_not_read_back:
  "prefix check (fst (create_docx black_box memo tab empty_fs))
 \<and> read_docx quote_repr memo (snd (create_docx black_box memo tab empty_fs))
      = u ''(new document)''
 \<and> \<not> contains (read_docx quote_repr memo (snd (create_docx black_box memo tab empty_fs))) tab
 \<and> prefix check (fst (create_xlsx black_box memo (u ''X'') None empty_fs))
 \<and> read_xlsx quote_repr memo None (snd (create_xlsx black_box memo (u ''X'') None empty_fs))
      = u ''(empty sheet)''
 \<and> \<not> contains
      (read_xlsx quote_repr memo None (snd (create_xlsx black_box memo (u ''X'') None empty_fs)))
      (u ''X'')"
proof -
  have g: "prefix check (fst (create_docx black_box memo tab empty_fs))"
    "prefix check (fst (create_xlsx black_box memo (u ''X'') None empty_fs))"
    using create_empty_fs by simp_all
  have a: "read_docx quote_repr memo (snd (create_docx black_box memo tab empty_fs))
      = u ''(new document)''"
    using create_docx_success [OF g(1), of "u ''(new document)''"]
    by (simp add: tab_blank read_docx_def docx_file_def paragraphs_def py_or_def)
  have b: "\<not> contains (u ''(new document)'') tab"
    by (simp add: u_def tab_def)
  have c: "read_xlsx quote_repr memo None
      (snd (create_xlsx black_box memo (u ''X'') None empty_fs)) = u ''(empty sheet)''"
    by (simp add: create_xlsx_def Let_def path_exists_def empty_fs_def write_file_def
        new_workbook_def active_def set_title_def sheetnames_def read_xlsx_def xlsx_file_def
        saved_def kept_def trim_def choose_sheet_def active_rows_def sheet_rows_def
        rows_text_def iter_rows_def)
  have d: "\<not> contains (u ''(empty sheet)'') (u ''X'')"
    by (simp add: u_def)
  from g a b c d show ?thesis by simp
qed


section \<open>The empty marker\<close>

text \<open>
  Claim C9. No read returns the empty string, whatever the file system holds; and when
  the file parses and its content renders to the empty string, read returns the marker
  of the format: \<open>(empty document)\<close>, \<open>(empty sheet)\<close>, \<open>(empty presentation)\<close>.
\<close>

theorem read_never_empty:
  "read_docx repr n s \<noteq> [] \<and> read_xlsx repr n sn s \<noteq> [] \<and> read_pptx n s \<noteq> []
 \<and> read_docx_copy repr n s \<noteq> []
 \<and> (files s (get_path n ext_docx) = Some f \<and> docx_of f = Inr doc
      \<and> join nl (paragraphs doc) = [] \<longrightarrow>
        read_docx repr n s = u ''(empty document)''
      \<and> read_docx_copy repr n s = u ''(empty document)'')
 \<and> (files s (get_path n ext_xlsx) = Some f \<and> xlsx_of f = Inr wb
      \<and> choose_sheet repr wb sn = Inr ws
      \<and> join nl (map (join (u '', '')) (rows_text (sheet_rows wb ws))) = [] \<longrightarrow>
        read_xlsx repr n sn s = u ''(empty sheet)'')
 \<and> (files s (get_path n ext_pptx) = Some f \<and> pptx_of f = Inr prs
      \<and> join (nl @ nl) (slides_text prs) = [] \<longrightarrow>
        read_pptx n s = u ''(empty presentation)'')"
proof -
  have a: "read_docx repr n s \<noteq> []"
    by (simp add: read_docx_def Let_def py_or_nonempty split: option.splits sum.splits)
  have b: "read_xlsx repr n sn s \<noteq> []"
    by (simp add: read_xlsx_def Let_def py_or_nonempty split: option.splits sum.splits)
  have c: "read_pptx n s \<noteq> []"
    by (simp add: read_pptx_def Let_def py_or_nonempty split: option.splits sum.splits)
  have d: "read_docx_copy repr n s \<noteq> []"
    by (simp add: read_docx_copy_def Let_def py_or_nonempty split: option.splits sum.splits)
  have e: "files s (get_path n ext_docx) = Some f \<and> docx_of f = Inr doc
      \<and> join nl (paragraphs doc) = [] \<longrightarrow>
        read_docx repr n s = u ''(empty document)''
      \<and> read_docx_copy repr n s = u ''(empty document)''"
    by (simp add: read_docx_def read_docx_copy_def get_doc_path_eq)
  have f: "files s (get_path n ext_xlsx) = Some f \<and> xlsx_of f = Inr wb
      \<and> choose_sheet repr wb sn = Inr ws
      \<and> join nl (map (join (u '', '')) (rows_text (sheet_rows wb ws))) = [] \<longrightarrow>
        read_xlsx repr n sn s = u ''(empty sheet)''"
    by (simp add: read_xlsx_def)
  have g: "files s (get_path n ext_pptx) = Some f \<and> pptx_of f = Inr prs
      \<and> join (nl @ nl) (slides_text prs) = [] \<longrightarrow>
        read_pptx n s = u ''(empty presentation)''"
    by (simp add: read_pptx_def)
  from a b c d e f g show ?thesis by blast
qed

text \<open>
  The three empty contents, read from the file system that holds them, and a read of a
  document with text.
\<close>

theorem read_never_empty_witness:
  "files blank_fs (get_path memo ext_docx) = Some (docx_file new_document)
 \<and> docx_of (docx_file new_document) = Inr new_document
 \<and> join nl (paragraphs new_document) = []
 \<and> read_docx quote_repr memo blank_fs = u ''(empty document)''
 \<and> read_docx_copy quote_repr memo blank_fs = u ''(empty document)''
 \<and> files blank_fs (get_path memo ext_xlsx) = Some (xlsx_file new_workbook)
 \<and> xlsx_of (xlsx_file new_workbook) = Inr new_workbook
 \<and> choose_sheet quote_repr new_workbook None = Inr 0
 \<and> join nl (map (join (u '', '')) (rows_text (sheet_rows new_workbook 0))) = []
 \<and> read_xlsx quote_repr memo None blank_fs = u ''(empty sheet)''
 \<and> files blank_fs (get_path memo ext_pptx) = Some (pptx_file (new_presentation black_box))
 \<and> pptx_of (pptx_file (new_presentation black_box)) = Inr (new_presentation black_box)
 \<and> join (nl @ nl) (slides_text (new_presentation black_box)) = []
 \<and> read_pptx memo blank_fs = u ''(empty presentation)''
 \<and> read_docx quote_repr memo office_fs \<noteq> []"
proof -
  have a: "read_docx quote_repr memo blank_fs = u ''(empty document)''
      \<and> read_docx_copy quote_repr memo blank_fs = u ''(empty document)''"
    using read_never_empty [of quote_repr memo blank_fs None "docx_file new_document" new_document]
      blank_files saved_views blank_render by simp
  have b: "read_xlsx quote_repr memo None blank_fs = u ''(empty sheet)''"
    using read_never_empty [of quote_repr memo blank_fs None "xlsx_file new_workbook" _
        new_workbook 0]
      blank_files saved_views blank_render by simp
  have c: "read_pptx memo blank_fs = u ''(empty presentation)''"
    using read_never_empty [of quote_repr memo blank_fs None "pptx_file (new_presentation black_box)" _ _ _
        "new_presentation black_box"]
      blank_files saved_views blank_render by simp
  have d: "read_docx quote_repr memo office_fs \<noteq> []"
    using read_never_empty [of quote_repr memo office_fs] by simp
  from a b c d blank_files saved_views blank_render show ?thesis by simp
qed


section \<open>The placeholder paragraph\<close>

text \<open>
  Claim C10. For every content that consists only of white space (so also when it is
  not empty), a Word create that succeeds leaves at the resolved path a document whose
  only paragraph is \<open>(new document)\<close>; this holds for \<open>create_docx\<close> of both source
  files.
\<close>

theorem blank_content_placeholder:
  assumes "list_all isspace content"
  shows "(prefix check (fst (create_docx L n content s)) \<longrightarrow>
           map_option docx_of (files (snd (create_docx L n content s)) (get_path n ext_docx))
             = Some (Inr [u ''(new document)'']))
       \<and> (prefix check (fst (create_docx_copy L n content s)) \<longrightarrow>
           map_option docx_of (files (snd (create_docx_copy L n content s)) (get_doc_path n))
             = Some (Inr [u ''(new document)'']))"
  using assms
  by (auto simp: create_docx_def create_docx_copy_def Let_def strip_blank write_file_def
      docx_file_def add_paragraph_def para_text_def new_document_def
      split: if_splits option.splits sum.splits)

text \<open>A space and a tab as content, on the empty file system.\<close>

theorem blank_content_placeholder_witness:
  "blanks \<noteq> [] \<and> list_all isspace blanks
 \<and> prefix check (fst (create_docx black_box memo blanks empty_fs))
 \<and> map_option docx_of (files (snd (create_docx black_box memo blanks empty_fs)) (get_path memo ext_docx))
      = Some (Inr [u ''(new document)''])
 \<and> prefix check (fst (create_docx_copy black_box memo blanks empty_fs))
 \<and> map_option docx_of (files (snd (create_docx_copy black_box memo blanks empty_fs)) (get_doc_path memo))
      = Some (Inr [u ''(new document)''])"
proof -
  have a: "list_all isspace blanks"
    by (simp add: blanks_def isspace_def)
  from blank_content_placeholder [OF a, of black_box memo empty_fs] a create_empty_fs
  show ?thesis by (simp add: blanks_def)
qed


end
